theory Spec2Isabelle
  imports
    Complex_Main
    "HOL-Library.Sublist"
    "HOL-Library.Char_ord"
    "HOL-Library.List_Lexorder"
    "HOL-Library.Multiset"
    "HOL-Library.AList"
begin

section \<open>JavaScript strings\<close>

text \<open>
  A JavaScript string is a sequence of UTF-16 code units. The model covers the strings
  whose code units lie below 256 (the ISO-8859-1 range), one \<^typ>\<open>char\<close> per code unit.
  On that range \<^verbatim>\<open>String.prototype.toLowerCase\<close> moves \<^verbatim>\<open>A\<close>..\<^verbatim>\<open>Z\<close> and the
  accented capitals \<^verbatim>\<open>U+00C0\<close>..\<^verbatim>\<open>U+00DE\<close> (the multiplication sign \<^verbatim>\<open>U+00D7\<close>
  apart) 32 places up and leaves every other code unit alone.
\<close>

definition toLowerCase_char :: "char \<Rightarrow> char" where
  "toLowerCase_char c =
     (let n = (of_char c :: nat)
      in if (65 \<le> n \<and> n \<le> 90) \<or> (192 \<le> n \<and> n \<le> 222 \<and> n \<noteq> 215)
         then char_of (n + 32) else c)"

definition toLowerCase :: "string \<Rightarrow> string" where
  "toLowerCase s = map toLowerCase_char s"

text \<open>
  \<^verbatim>\<open>s.includes(needle)\<close>: does \<^verbatim>\<open>needle\<close> occur in \<^verbatim>\<open>s\<close> as a contiguous run,
  tried at every start position from the left.
\<close>

fun str_includes :: "string \<Rightarrow> string \<Rightarrow> bool" where
  "str_includes [] needle = (needle = [])"
| "str_includes (c # cs) needle = (prefix needle (c # cs) \<or> str_includes cs needle)"

section \<open>The material catalog\<close>

text \<open>
  \<^verbatim>\<open>interface Material { id; name; color?; texture?; preview }\<close>: the two optional
  fields are \<^verbatim>\<open>undefined\<close> when \<^const>\<open>None\<close>.
\<close>

record Material =
  m_id :: string
  m_name :: string
  color :: "string option"
  texture :: "string option"
  preview :: string

definition mk_material :: "string \<Rightarrow> string \<Rightarrow> string \<Rightarrow> string \<Rightarrow> Material" where
  "mk_material i n c p =
     \<lparr>m_id = i, m_name = n, color = Some c, texture = None, preview = p\<rparr>"

definition chairMaterials :: "Material list" where
  "chairMaterials =
    [mk_material ''leather-brown'' ''Brown Leather'' ''#8B4513''
       ''linear-gradient(135deg, #8B4513, #A0522D)'',
     mk_material ''leather-black'' ''Black Leather'' ''#1a1a1a''
       ''linear-gradient(135deg, #1a1a1a, #333333)'',
     mk_material ''fabric-gray'' ''Gray Fabric'' ''#6B7280''
       ''linear-gradient(135deg, #6B7280, #9CA3AF)'',
     mk_material ''fabric-blue'' ''Blue Fabric'' ''#3B82F6''
       ''linear-gradient(135deg, #3B82F6, #60A5FA)'',
     mk_material ''wood-oak'' ''Oak Wood'' ''#DEB887''
       ''linear-gradient(135deg, #DEB887, #F5DEB3)'',
     mk_material ''wood-walnut'' ''Walnut'' ''#654321''
       ''linear-gradient(135deg, #654321, #8B4513)'',
     mk_material ''metal-chrome'' ''Chrome'' ''#C0C0C0''
       ''linear-gradient(135deg, #C0C0C0, #E6E6FA)'',
     mk_material ''metal-black'' ''Black Metal'' ''#2C2C2C''
       ''linear-gradient(135deg, #2C2C2C, #4A4A4A)'']"

definition sofaMaterials :: "Material list" where
  "sofaMaterials =
    [mk_material ''velvet-emerald'' ''Emerald Velvet'' ''#50C878''
       ''linear-gradient(135deg, #50C878, #7FFFD4)'',
     mk_material ''velvet-burgundy'' ''Burgundy Velvet'' ''#800020''
       ''linear-gradient(135deg, #800020, #B22222)'',
     mk_material ''linen-beige'' ''Beige Linen'' ''#F5F5DC''
       ''linear-gradient(135deg, #F5F5DC, #FFFACD)'',
     mk_material ''cotton-white'' ''White Cotton'' ''#FFFFFF''
       ''linear-gradient(135deg, #FFFFFF, #F8F8FF)'']
    @ filter (\<lambda>m. str_includes (m_id m) ''leather'') chairMaterials"

definition defaultMaterials :: "Material list" where
  "defaultMaterials =
    [mk_material ''default-red'' ''Red'' ''#EF4444''
       ''linear-gradient(135deg, #EF4444, #F87171)'',
     mk_material ''default-blue'' ''Blue'' ''#3B82F6''
       ''linear-gradient(135deg, #3B82F6, #60A5FA)'',
     mk_material ''default-green'' ''Green'' ''#10B981''
       ''linear-gradient(135deg, #10B981, #34D399)'',
     mk_material ''default-purple'' ''Purple'' ''#8B5CF6''
       ''linear-gradient(135deg, #8B5CF6, #A78BFA)'']"

definition getModelMaterials :: "string \<Rightarrow> Material list" where
  "getModelMaterials modelName =
     (let lowerName = toLowerCase modelName
      in if str_includes lowerName ''chair'' then chairMaterials
         else if str_includes lowerName ''sofa'' \<or> str_includes lowerName ''couch''
           then sofaMaterials
         else if str_includes lowerName ''table''
           then filter (\<lambda>m. str_includes (m_id m) ''wood'' \<or> str_includes (m_id m) ''metal'')
                  chairMaterials
         else defaultMaterials)"

text \<open>The palettes of the catalog written out, entry by entry.\<close>

definition chair_palette :: "Material list" where
  "chair_palette =
    [\<lparr>m_id = ''leather-brown'', m_name = ''Brown Leather'', color = Some ''#8B4513'',
      texture = None, preview = ''linear-gradient(135deg, #8B4513, #A0522D)''\<rparr>,
     \<lparr>m_id = ''leather-black'', m_name = ''Black Leather'', color = Some ''#1a1a1a'',
      texture = None, preview = ''linear-gradient(135deg, #1a1a1a, #333333)''\<rparr>,
     \<lparr>m_id = ''fabric-gray'', m_name = ''Gray Fabric'', color = Some ''#6B7280'',
      texture = None, preview = ''linear-gradient(135deg, #6B7280, #9CA3AF)''\<rparr>,
     \<lparr>m_id = ''fabric-blue'', m_name = ''Blue Fabric'', color = Some ''#3B82F6'',
      texture = None, preview = ''linear-gradient(135deg, #3B82F6, #60A5FA)''\<rparr>,
     \<lparr>m_id = ''wood-oak'', m_name = ''Oak Wood'', color = Some ''#DEB887'',
      texture = None, preview = ''linear-gradient(135deg, #DEB887, #F5DEB3)''\<rparr>,
     \<lparr>m_id = ''wood-walnut'', m_name = ''Walnut'', color = Some ''#654321'',
      texture = None, preview = ''linear-gradient(135deg, #654321, #8B4513)''\<rparr>,
     \<lparr>m_id = ''metal-chrome'', m_name = ''Chrome'', color = Some ''#C0C0C0'',
      texture = None, preview = ''linear-gradient(135deg, #C0C0C0, #E6E6FA)''\<rparr>,
     \<lparr>m_id = ''metal-black'', m_name = ''Black Metal'', color = Some ''#2C2C2C'',
      texture = None, preview = ''linear-gradient(135deg, #2C2C2C, #4A4A4A)''\<rparr>]"

definition sofa_palette :: "Material list" where
  "sofa_palette =
    [\<lparr>m_id = ''velvet-emerald'', m_name = ''Emerald Velvet'', color = Some ''#50C878'',
      texture = None, preview = ''linear-gradient(135deg, #50C878, #7FFFD4)''\<rparr>,
     \<lparr>m_id = ''velvet-burgundy'', m_name = ''Burgundy Velvet'', color = Some ''#800020'',
      texture = None, preview = ''linear-gradient(135deg, #800020, #B22222)''\<rparr>,
     \<lparr>m_id = ''linen-beige'', m_name = ''Beige Linen'', color = Some ''#F5F5DC'',
      texture = None, preview = ''linear-gradient(135deg, #F5F5DC, #FFFACD)''\<rparr>,
     \<lparr>m_id = ''cotton-white'', m_name = ''White Cotton'', color = Some ''#FFFFFF'',
      texture = None, preview = ''linear-gradient(135deg, #FFFFFF, #F8F8FF)''\<rparr>,
     \<lparr>m_id = ''leather-brown'', m_name = ''Brown Leather'', color = Some ''#8B4513'',
      texture = None, preview = ''linear-gradient(135deg, #8B4513, #A0522D)''\<rparr>,
     \<lparr>m_id = ''leather-black'', m_name = ''Black Leather'', color = Some ''#1a1a1a'',
      texture = None, preview = ''linear-gradient(135deg, #1a1a1a, #333333)''\<rparr>]"

definition table_palette :: "Material list" where
  "table_palette =
    [\<lparr>m_id = ''wood-oak'', m_name = ''Oak Wood'', color = Some ''#DEB887'',
      texture = None, preview = ''linear-gradient(135deg, #DEB887, #F5DEB3)''\<rparr>,
     \<lparr>m_id = ''wood-walnut'', m_name = ''Walnut'', color = Some ''#654321'',
      texture = None, preview = ''linear-gradient(135deg, #654321, #8B4513)''\<rparr>,
     \<lparr>m_id = ''metal-chrome'', m_name = ''Chrome'', color = Some ''#C0C0C0'',
      texture = None, preview = ''linear-gradient(135deg, #C0C0C0, #E6E6FA)''\<rparr>,
     \<lparr>m_id = ''metal-black'', m_name = ''Black Metal'', color = Some ''#2C2C2C'',
      texture = None, preview = ''linear-gradient(135deg, #2C2C2C, #4A4A4A)''\<rparr>]"

definition default_palette :: "Material list" where
  "default_palette =
    [\<lparr>m_id = ''default-red'', m_name = ''Red'', color = Some ''#EF4444'',
      texture = None, preview = ''linear-gradient(135deg, #EF4444, #F87171)''\<rparr>,
     \<lparr>m_id = ''default-blue'', m_name = ''Blue'', color = Some ''#3B82F6'',
      texture = None, preview = ''linear-gradient(135deg, #3B82F6, #60A5FA)''\<rparr>,
     \<lparr>m_id = ''default-green'', m_name = ''Green'', color = Some ''#10B981'',
      texture = None, preview = ''linear-gradient(135deg, #10B981, #34D399)''\<rparr>,
     \<lparr>m_id = ''default-purple'', m_name = ''Purple'', color = Some ''#8B5CF6'',
      texture = None, preview = ''linear-gradient(135deg, #8B5CF6, #A78BFA)''\<rparr>]"

section \<open>The asset indexer\<close>

subsection \<open>Paths and the file system\<close>

text \<open>
  A resolved path is the list of its components below the root. \<^verbatim>\<open>path.join\<close> (POSIX)
  concatenates its arguments with \<^verbatim>\<open>/\<close> and normalises the result: empty segments and
  \<^verbatim>\<open>.\<close> are dropped, \<^verbatim>\<open>..\<close> removes the segment before it and stays at the root of
  an absolute path. \<^verbatim>\<open>__dirname\<close> is absolute, so every joined path here is.
\<close>

type_synonym path = "string list"

fun split_slash :: "string \<Rightarrow> string list" where
  "split_slash [] = [[]]"
| "split_slash (c # cs) =
     (if c = CHR ''/'' then [] # split_slash cs
      else (case split_slash cs of [] \<Rightarrow> [[c]] | w # ws \<Rightarrow> (c # w) # ws))"

definition norm_step :: "string list \<Rightarrow> string \<Rightarrow> string list" where
  "norm_step stack seg =
     (if seg = [] \<or> seg = ''.'' then stack
      else if seg = ''..'' then (case stack of [] \<Rightarrow> [] | _ # rest \<Rightarrow> rest)
      else seg # stack)"

definition path_join :: "path \<Rightarrow> string list \<Rightarrow> path" where
  "path_join base args = rev (foldl norm_step (rev base) (concat (map split_slash args)))"

text \<open>
  The file system, as far as the indexer observes it: what each path refers to, in the
  order the operating system reports the entries. A directory's listing is the last
  components of the paths directly below it. Failing calls of Node's \<^verbatim>\<open>fs\<close> module
  throw; the error is returned together with the file system as it was left.
\<close>

datatype node = File string | Dir

type_synonym filesystem = "(path \<times> node) list"

datatype fs_error = ENOENT | ENOTDIR | EISDIR | EEXIST

definition existsSync :: "filesystem \<Rightarrow> path \<Rightarrow> bool" where
  "existsSync fs p = (map_of fs p \<noteq> None)"

fun mkdirs :: "filesystem \<Rightarrow> path list \<Rightarrow> (fs_error \<times> filesystem) + filesystem" where
  "mkdirs fs [] = Inr fs"
| "mkdirs fs (q # qs) =
     (case map_of fs q of
        None \<Rightarrow> mkdirs (fs @ [(q, Dir)]) qs
      | Some Dir \<Rightarrow> mkdirs fs qs
      | Some (File _) \<Rightarrow> Inl (if qs = [] then EEXIST else ENOTDIR, fs))"

definition mkdirSync_recursive :: "filesystem \<Rightarrow> path \<Rightarrow> (fs_error \<times> filesystem) + filesystem" where
  \<comment> \<open>\<^verbatim>\<open>fs.mkdirSync(p, { recursive: true })\<close>: every missing directory from the root down\<close>
  "mkdirSync_recursive fs p = mkdirs fs (prefixes p)"

definition names_in :: "filesystem \<Rightarrow> path \<Rightarrow> string list" where
  "names_in fs p = map last (filter (\<lambda>q. q \<noteq> [] \<and> butlast q = p) (map fst fs))"

definition readdirSync :: "filesystem \<Rightarrow> path \<Rightarrow> (fs_error \<times> filesystem) + string list" where
  "readdirSync fs p =
     (case map_of fs p of
        None \<Rightarrow> Inl (ENOENT, fs)
      | Some (File _) \<Rightarrow> Inl (ENOTDIR, fs)
      | Some Dir \<Rightarrow> Inr (names_in fs p))"

definition writeFileSync :: "filesystem \<Rightarrow> path \<Rightarrow> string \<Rightarrow> (fs_error \<times> filesystem) + filesystem" where
  "writeFileSync fs q content =
     (case map_of fs q of
        Some Dir \<Rightarrow> Inl (EISDIR, fs)
      | _ \<Rightarrow>
        (case map_of fs (butlast q) of
           None \<Rightarrow> Inl (ENOENT, fs)
         | Some (File _) \<Rightarrow> Inl (ENOTDIR, fs)
         | Some Dir \<Rightarrow> Inr (AList.update q (File content) fs)))"

subsection \<open>Strings: suffix test and JSON text\<close>

definition endsWith :: "string \<Rightarrow> string \<Rightarrow> bool" where
  "endsWith s searchString =
     (length searchString \<le> length s \<and> drop (length s - length searchString) s = searchString)"

definition hex_digit :: "nat \<Rightarrow> char" where
  "hex_digit n = ''0123456789abcdef'' ! (n mod 16)"

definition json_escape :: "char \<Rightarrow> string" where
  \<comment> \<open>\<^verbatim>\<open>QuoteJSONString\<close>: the quote, the backslash and the control characters are escaped\<close>
  "json_escape c =
     (let n = (of_char c :: nat)
      in if n = 0x22 then [CHR 0x5C, CHR 0x22]
         else if n = 0x5C then [CHR 0x5C, CHR 0x5C]
         else if n = 8 then [CHR 0x5C, CHR ''b'']
         else if n = 9 then [CHR 0x5C, CHR ''t'']
         else if n = 10 then [CHR 0x5C, CHR ''n'']
         else if n = 12 then [CHR 0x5C, CHR ''f'']
         else if n = 13 then [CHR 0x5C, CHR ''r'']
         else if n < 32
           then [CHR 0x5C, CHR ''u'', CHR ''0'', CHR ''0'', hex_digit (n div 16), hex_digit n]
         else [c])"

definition JSON_quote :: "string \<Rightarrow> string" where
  "JSON_quote s = [CHR 0x22] @ concat (map json_escape s) @ [CHR 0x22]"

fun join_with :: "string \<Rightarrow> string list \<Rightarrow> string" where
  "join_with sep [] = []"
| "join_with sep [x] = x"
| "join_with sep (x # y # ys) = x @ sep @ join_with sep (y # ys)"

definition JSON_stringify :: "string list \<Rightarrow> string" where
  \<comment> \<open>\<^verbatim>\<open>JSON.stringify(files, null, 2)\<close> on an array of strings\<close>
  "JSON_stringify files =
     (if files = [] then ''[]''
      else ''['' @ [CHR 0x0A]
           @ join_with ('','' @ [CHR 0x0A]) (map (\<lambda>f. ''  '' @ JSON_quote f) files)
           @ [CHR 0x0A] @ '']'')"

subsection \<open>generateIndex and main\<close>

text \<open>
  \<^verbatim>\<open>dirname\<close> is the directory of the script (\<^verbatim>\<open>__dirname\<close>). \<^verbatim>\<open>Array.prototype.sort\<close>
  without a comparator orders strings by their code units, which is the lexicographic
  order of \<^typ>\<open>string\<close>; a total order has one sorted arrangement, so \<^const>\<open>sort\<close> gives
  the array whatever algorithm the engine runs. The two \<^verbatim>\<open>console.log\<close> lines are left out.
\<close>

definition public_path :: "path \<Rightarrow> string \<Rightarrow> path" where
  \<comment> \<open>\<^verbatim>\<open>path.join(__dirname, '..', 'public', directory)\<close>\<close>
  "public_path dirname directory = path_join dirname [''..'', ''public'', directory]"

definition generateIndex ::
  "path \<Rightarrow> filesystem \<Rightarrow> string \<Rightarrow> string \<Rightarrow> (fs_error \<times> filesystem) + filesystem" where
  "generateIndex dirname fs directory extension =
     (let fullPath = public_path dirname directory
      in case (if \<not> existsSync fs fullPath then mkdirSync_recursive fs fullPath else Inr fs) of
           Inl e \<Rightarrow> Inl e
         | Inr fs1 \<Rightarrow>
           (case readdirSync fs1 fullPath of
              Inl e \<Rightarrow> Inl e
            | Inr names \<Rightarrow>
              (let files = sort (filter (\<lambda>file. endsWith file extension) names);
                   indexPath = path_join fullPath [''index.json'']
               in writeFileSync fs1 indexPath (JSON_stringify files))))"

definition main :: "path \<Rightarrow> filesystem \<Rightarrow> (fs_error \<times> filesystem) + (filesystem \<times> bool)" where
  "main dirname fs =
     (case generateIndex dirname fs ''3d'' ''.glb'' of
        Inl e \<Rightarrow> Inl e
      | Inr fs1 \<Rightarrow>
        (case generateIndex dirname fs1 ''minds'' ''.mind'' of
           Inl e \<Rightarrow> Inl e
         | Inr fs2 \<Rightarrow> Inr (fs2, True)))"

section \<open>The AR viewer\<close>

text \<open>
  The repository holds the component \<^verbatim>\<open>ARCamera\<close> in two variants, called A (the first)
  and B (the second) here. Where their handlers differ, each has its own definition, with
  the letter of the variant in its name.
\<close>

subsection \<open>Numbers, vectors and scene objects\<close>

text \<open>
  JavaScript numbers are IEEE doubles; the model takes them as real numbers, so rounding,
  infinities and \<^verbatim>\<open>NaN\<close> are left out. A \<^verbatim>\<open>THREE.Vector3\<close> (and the three angles of a
  \<^verbatim>\<open>THREE.Euler\<close>) is a record of three numbers.
\<close>

record vec3 =
  vx :: real
  vy :: real
  vz :: real

definition vec :: "real \<Rightarrow> real \<Rightarrow> real \<Rightarrow> vec3" where
  "vec a b c = \<lparr>vx = a, vy = b, vz = c\<rparr>"

definition v_add :: "vec3 \<Rightarrow> vec3 \<Rightarrow> vec3" where
  "v_add u v = \<lparr>vx = vx u + vx v, vy = vy u + vy v, vz = vz u + vz v\<rparr>"


definition multiplyScalar :: "vec3 \<Rightarrow> real \<Rightarrow> vec3" where
  "multiplyScalar v k = \<lparr>vx = vx v * k, vy = vy v * k, vz = vz v * k\<rparr>"

text \<open>
  The scene objects live in a store and are referred to by address: the scene graph and
  the placed-model records hold the same object, and the handlers mutate it in place.
  Of a \<^verbatim>\<open>THREE.Object3D\<close> the model keeps the transform, whether the object is a
  \<^verbatim>\<open>THREE.Mesh\<close>, its shadow flags, the 24-bit colour last given to its material, and
  the length of the diagonal of its bounding box as loaded. Descendants are left out.
\<close>

type_synonym addr = nat

record Object3D =
  position :: vec3
  rotation :: vec3
  scale :: vec3
  isMesh :: bool
  castShadow :: bool
  receiveShadow :: bool
  materialColor :: int
  boundingSize :: real

record PerspectiveCamera =
  cam_position :: vec3
  worldDirection :: vec3  \<comment> \<open>what \<^verbatim>\<open>getWorldDirection\<close> returns, a unit vector\<close>

record ARModel =
  ar_id :: string
  ar_name :: string
  model :: addr
  ar_position :: vec3
  ar_rotation :: vec3
  ar_scale :: vec3
  locked :: bool
  selectedMaterial :: "string option"
  materials :: "Material list"

datatype controlMode_t = Move | Rotate | Scale

datatype toast_variant = Default | Destructive

record toast =
  title :: string
  description :: string
  variant :: "toast_variant option"
  duration :: "nat option"

definition mk_toast :: "string \<Rightarrow> string \<Rightarrow> toast_variant option \<Rightarrow> toast" where
  "mk_toast t d v = \<lparr>title = t, description = d, variant = v, duration = None\<rparr>"

text \<open>
  The transform delta \<^verbatim>\<open>{ x?: number, y?: number, z?: number }\<close>; \<^verbatim>\<open>delta.x || 0\<close> is
  \<^verbatim>\<open>0\<close> for a missing component (and for \<^verbatim>\<open>0\<close> itself).
\<close>

record delta =
  dx :: "real option"
  dy :: "real option"
  dz :: "real option"

definition or0 :: "real option \<Rightarrow> real" where
  "or0 v = (case v of None \<Rightarrow> 0 | Some r \<Rightarrow> r)"

definition delta_vec :: "delta \<Rightarrow> vec3" where
  "delta_vec d = vec (or0 (dx d)) (or0 (dy d)) (or0 (dz d))"

subsection \<open>The component state\<close>

text \<open>
  The refs and the state cells of the component, with two additions: the store of scene
  objects, and the asset loads that have been started and have not settled
  (\<open>inFlight\<close>). A state update is taken to be in force when the next handler runs. The
  notifications passed to \<^verbatim>\<open>toast\<close> are kept in the order they were issued.
\<close>

datatype task = GLBLoad string | MindFetch string addr

record viewer =
  sceneRef :: "addr list option"  \<comment> \<open>the children of the scene; \<^const>\<open>None\<close> for \<^verbatim>\<open>null\<close>\<close>
  cameraRef :: "PerspectiveCamera option"
  objects :: "addr \<Rightarrow> Object3D"
  nextObject :: addr
  cameraActive :: bool
  arModels :: "ARModel list"
  selectedModel :: "string option"
  controlMode :: controlMode_t
  isLoading :: bool
  activeModel :: "string option"
  toasts :: "toast list"
  inFlight :: "task list"

definition new_object :: Object3D where
  "new_object = \<lparr>position = vec 0 0 0, rotation = vec 0 0 0, scale = vec 1 1 1,
     isMesh = False, castShadow = False, receiveShadow = False, materialColor = 0xffffff,
     boundingSize = 0\<rparr>"

definition initial :: viewer where
  "initial = \<lparr>sceneRef = None, cameraRef = None, objects = (\<lambda>_. new_object), nextObject = 0,
     cameraActive = False, arModels = [], selectedModel = None, controlMode = Move,
     isLoading = False, activeModel = None, toasts = [], inFlight = []\<rparr>"

definition notify :: "toast \<Rightarrow> viewer \<Rightarrow> viewer" where
  "notify t s = s\<lparr>toasts := toasts s @ [t]\<rparr>"

definition new_camera :: PerspectiveCamera where
  \<comment> \<open>\<^verbatim>\<open>camera.position.z = 5\<close>, looking down the negative z axis\<close>
  "new_camera = \<lparr>cam_position = vec 0 0 5, worldDirection = vec 0 0 (-1)\<rparr>"

definition initScene_A :: "viewer \<Rightarrow> viewer" where
  \<comment> \<open>the effect of variant A: a scene holding the ambient and the directional light\<close>
  "initScene_A s =
     (let a = nextObject s
      in s\<lparr>objects := (objects s)(a := new_object,
                                    Suc a := new_object\<lparr>position := vec 10 10 5\<rparr>),
           nextObject := a + 2, sceneRef := Some [a, Suc a], cameraRef := Some new_camera\<rparr>)"

definition initScene_B :: "viewer \<Rightarrow> viewer" where
  "initScene_B s = s\<lparr>sceneRef := Some [], cameraRef := Some new_camera\<rparr>"

subsection \<open>Number formatting\<close>

fun show_nat :: "nat \<Rightarrow> string" where
  "show_nat n =
     (if n < 10 then [''0123456789'' ! n]
      else show_nat (n div 10) @ [''0123456789'' ! (n mod 10)])"

subsection \<open>spawnModel\<close>

text \<open>
  \<^verbatim>\<open>spawnModel\<close> is asynchronous. Its run is cut at the \<^verbatim>\<open>await\<close>s: the part up to
  the start of the load, the progress callback, and the continuations that run when the
  load (and, in variant A, the fetch of the sidecar file) has settled. A settling event
  names the load by its place in \<open>inFlight\<close> and carries what the environment supplies:
  the outcome, the clock, the random draws. The \<^verbatim>\<open>finally\<close> block is \<open>finish\<close>.

  The progress callback shows \<^verbatim>\<open>Math.round((xhr.loaded / (xhr.total || 1)) * 100)\<close>, a
  non-negative whole number computed in double arithmetic, with its roundings (23 of 40
  gives 57). The model has no doubles, so the progress event carries that number.

  The scale a fresh object gets is \<^verbatim>\<open>1.5 / size\<close>. For an asset whose bounding box is
  empty JavaScript gives \<^verbatim>\<open>Infinity\<close>, which the model does not have (its quotient is
  0 there); nothing below depends on the scale of such an object.
\<close>

datatype load_error = FetchFailed | DecodeFailed

datatype mind_outcome = MindRejected | MindNotOk | MindBadJson | MindJson

definition finish :: "viewer \<Rightarrow> viewer" where
  "finish s = s\<lparr>isLoading := False, activeModel := None\<rparr>"

definition remove_nth :: "nat \<Rightarrow> 'a list \<Rightarrow> 'a list" where
  "remove_nth i xs = take i xs @ drop (Suc i) xs"

definition null_scene_message :: string where
  \<comment> \<open>the engine's text for \<^verbatim>\<open>sceneRef.current.add\<close> on \<^verbatim>\<open>null\<close> (V8's wording)\<close>
  "null_scene_message = ''Cannot read properties of null (reading 'add')''"

definition first_material_id :: "Material list \<Rightarrow> string option" where
  \<comment> \<open>\<^verbatim>\<open>modelMaterials[0]?.id || null\<close>: the empty string is falsy\<close>
  "first_material_id ms =
     (case ms of [] \<Rightarrow> None | m # _ \<Rightarrow> if m_id m = [] then None else Some (m_id m))"

definition newModel :: "string \<Rightarrow> nat \<Rightarrow> addr \<Rightarrow> Object3D \<Rightarrow> ARModel" where
  "newModel modelName now a gltf =
     (let modelMaterials = getModelMaterials modelName
      in \<lparr>ar_id = modelName @ ''-'' @ show_nat now, ar_name = modelName, model = a,
          ar_position = position gltf, ar_rotation = rotation gltf, ar_scale = scale gltf,
          locked = False, selectedMaterial = first_material_id modelMaterials,
          materials = modelMaterials\<rparr>)"

definition spawnModel_A :: "string \<Rightarrow> viewer \<Rightarrow> viewer" where
  "spawnModel_A modelName s =
     (if sceneRef s = None then s
      else if isLoading s then s
      else notify (mk_toast ''Loading Model'' (''Loading '' @ modelName @ ''...'') (Some Default))
             (s\<lparr>isLoading := True, activeModel := Some modelName,
                inFlight := inFlight s @ [GLBLoad modelName]\<rparr>))"

definition progress_A :: "nat \<Rightarrow> nat \<Rightarrow> viewer \<Rightarrow> viewer" where
  "progress_A i percent s =
     (if i < length (inFlight s) then
        (case inFlight s ! i of
           GLBLoad modelName \<Rightarrow>
             notify (mk_toast ''Loading Model''
               (''Loading '' @ modelName @ ''... '' @ show_nat percent @ ''%'')
               (Some Default)) s
         | MindFetch _ _ \<Rightarrow> s)
      else s)"

definition place_A :: "PerspectiveCamera option \<Rightarrow> real \<Rightarrow> real \<Rightarrow> vec3" where
  \<comment> \<open>\<open>r1\<close>, \<open>r2\<close>: the two values of \<^verbatim>\<open>Math.random()\<close>, each in \<open>[0, 1)\<close>\<close>
  "place_A cam r1 r2 =
     (case cam of
        Some c \<Rightarrow> v_add (cam_position c) (multiplyScalar (worldDirection c) 2)
      | None \<Rightarrow> vec ((r1 - 0.5) * 2) 0 ((r2 - 0.5) * 2 - 2))"

definition glbSettled_A ::
  "nat \<Rightarrow> load_error + Object3D \<Rightarrow> real \<Rightarrow> real \<Rightarrow> viewer \<Rightarrow> viewer" where
  "glbSettled_A i result r1 r2 s =
     (if i < length (inFlight s) then
        (case inFlight s ! i of
           GLBLoad modelName \<Rightarrow>
             (let s0 = s\<lparr>inFlight := remove_nth i (inFlight s)\<rparr>
              in case result of
                   Inl _ \<Rightarrow>
                     finish (notify (mk_toast ''Error Loading Model''
                       (''Failed to load '' @ modelName @ ''. '' @ ''Failed to load model: '')
                       (Some Destructive)) s0)
                 | Inr gltf \<Rightarrow>
                     (let a = nextObject s0;
                          normScale = 1.5 / boundingSize gltf;
                          placed = gltf\<lparr>position := place_A (cameraRef s0) r1 r2,
                                        scale := vec normScale normScale normScale,
                                        castShadow := (isMesh gltf \<or> castShadow gltf),
                                        receiveShadow := (isMesh gltf \<or> receiveShadow gltf)\<rparr>
                      in s0\<lparr>objects := (objects s0)(a := placed), nextObject := Suc a,
                            inFlight := inFlight s0 @ [MindFetch modelName a]\<rparr>))
         | MindFetch _ _ \<Rightarrow> s)
      else s)"

definition mindSettled_A :: "nat \<Rightarrow> mind_outcome \<Rightarrow> nat \<Rightarrow> viewer \<Rightarrow> viewer" where
  "mindSettled_A i outcome now s =
     (if i < length (inFlight s) then
        (case inFlight s ! i of
           GLBLoad _ \<Rightarrow> s
         | MindFetch modelName a \<Rightarrow>
             (let s0 = s\<lparr>inFlight := remove_nth i (inFlight s)\<rparr>;
                  s1 = (if outcome = MindJson
                        then notify (\<lparr>title = ''Tracking Data Loaded'',
                               description = ''Successfully loaded tracking data for ''
                                 @ modelName @ ''.'',
                               variant = None, duration = Some 3000\<rparr>) s0
                        else s0);
                  entity = newModel modelName now a (objects s1 a)
              in case sceneRef s1 of
                   None \<Rightarrow>
                     finish (notify (mk_toast ''Error Loading Model''
                       (''Failed to load '' @ modelName @ ''. '' @ null_scene_message)
                       (Some Destructive)) s1)
                 | Some children \<Rightarrow>
                     finish (notify (mk_toast ''Model Loaded''
                       (modelName @ '' has been placed in the scene.'') (Some Default))
                       (s1\<lparr>sceneRef := Some (children @ [a]),
                           arModels := arModels s1 @ [entity]\<rparr>))))
      else s)"

definition spawnModel_B :: "string \<Rightarrow> viewer \<Rightarrow> viewer" where
  "spawnModel_B modelName s =
     (if sceneRef s = None then s
      else if isLoading s then s
      else notify (mk_toast ''Loading Model'' (''Loading '' @ modelName @ ''...'') None)
             (s\<lparr>isLoading := True, activeModel := Some modelName,
                inFlight := inFlight s @ [GLBLoad modelName]\<rparr>))"

definition progress_B :: "nat \<Rightarrow> nat \<Rightarrow> viewer \<Rightarrow> viewer" where
  "progress_B i percent s =
     (if i < length (inFlight s) then
        (case inFlight s ! i of
           GLBLoad modelName \<Rightarrow>
             notify (mk_toast ''Loading''
               (''Loading '' @ modelName @ ''... '' @ show_nat percent @ ''%'')
               None) s
         | MindFetch _ _ \<Rightarrow> s)
      else s)"

definition place_B :: "PerspectiveCamera option \<Rightarrow> vec3" where
  "place_B cam =
     (case cam of
        Some c \<Rightarrow> v_add (cam_position c) (multiplyScalar (worldDirection c) 2)
      | None \<Rightarrow> vec 0 0 (-5))"

definition glbSettled_B :: "nat \<Rightarrow> load_error + Object3D \<Rightarrow> nat \<Rightarrow> viewer \<Rightarrow> viewer" where
  "glbSettled_B i result now s =
     (if i < length (inFlight s) then
        (case inFlight s ! i of
           GLBLoad modelName \<Rightarrow>
             (let s0 = s\<lparr>inFlight := remove_nth i (inFlight s)\<rparr>;
                  failed = mk_toast ''Error''
                    (''Failed to load '' @ modelName @ ''. Please try again.'') (Some Destructive)
              in case result of
                   Inl _ \<Rightarrow> finish (notify failed s0)
                 | Inr gltf \<Rightarrow>
                     (let a = nextObject s0;
                          normScale = 1.5 / boundingSize gltf;
                          placed = gltf\<lparr>position := place_B (cameraRef s0),
                                        scale := vec normScale normScale normScale\<rparr>;
                          s1 = s0\<lparr>objects := (objects s0)(a := placed), nextObject := Suc a\<rparr>
                      in case sceneRef s1 of
                           None \<Rightarrow> finish (notify failed s1)
                         | Some children \<Rightarrow>
                             (let entity = newModel modelName now a placed
                              in finish (notify (mk_toast ''Model Loaded''
                                   (modelName @ '' has been placed in the scene.'') None)
                                   (s1\<lparr>sceneRef := Some (children @ [a]),
                                       arModels := arModels s1 @ [entity],
                                       selectedModel := Some (ar_id entity)\<rparr>)))))
         | MindFetch _ _ \<Rightarrow> s)
      else s)"

subsection \<open>Lock, transform and material selection\<close>

definition toggle_lock :: "string \<Rightarrow> ARModel \<Rightarrow> ARModel" where
  "toggle_lock modelId m = (if ar_id m = modelId then m\<lparr>locked := \<not> locked m\<rparr> else m)"

definition toggleModelLock_A :: "string \<Rightarrow> viewer \<Rightarrow> viewer" where
  "toggleModelLock_A modelId s =
     (let was_locked = (case find (\<lambda>m. ar_id m = modelId) (arModels s) of
                          None \<Rightarrow> False | Some m \<Rightarrow> locked m)
      in notify (mk_toast (if was_locked then ''Model Unlocked'' else ''Model Locked'')
                  (if was_locked then ''Model can now move with image tracking.''
                   else ''Model will stay in place even without image reference.'') None)
           (s\<lparr>arModels := map (toggle_lock modelId) (arModels s)\<rparr>))"

definition toggleModelLock_B :: "string \<Rightarrow> viewer \<Rightarrow> viewer" where
  "toggleModelLock_B modelId s = s\<lparr>arModels := map (toggle_lock modelId) (arModels s)\<rparr>"

definition transformModel_A :: "string \<Rightarrow> delta \<Rightarrow> viewer \<Rightarrow> viewer" where
  "transformModel_A modelId d s =
     (case find (\<lambda>m. ar_id m = modelId) (arModels s) of
        None \<Rightarrow> s
      | Some modelData \<Rightarrow>
          if locked modelData then s
          else (let a = model modelData; obj = objects s a
                in case controlMode s of
                     Move \<Rightarrow>
                       s\<lparr>objects := (objects s)(a := obj\<lparr>position :=
                           v_add (position obj) (vec (or0 (dx d)) (or0 (dy d)) (or0 (dz d)))\<rparr>)\<rparr>
                   | Rotate \<Rightarrow>
                       s\<lparr>objects := (objects s)(a := obj\<lparr>rotation :=
                           v_add (rotation obj) (vec (or0 (dx d)) (or0 (dy d)) (or0 (dz d)))\<rparr>)\<rparr>
                   | Scale \<Rightarrow>
                       (let scaleFactor = 1 + or0 (dx d) * 0.1
                        in s\<lparr>objects := (objects s)(a := obj\<lparr>scale :=
                              multiplyScalar (scale obj) scaleFactor\<rparr>)\<rparr>)))"

text \<open>
  Variant B runs inside the state updater: it walks the list, mutates the scene object of
  every unlocked entity with the given id and takes a fresh copy of its position. A
  component that is \<^verbatim>\<open>undefined\<close> is skipped.
\<close>

definition move_by :: "vec3 \<Rightarrow> delta \<Rightarrow> vec3" where
  "move_by p d =
     \<lparr>vx = (case dx d of None \<Rightarrow> vx p | Some r \<Rightarrow> vx p + r),
      vy = (case dy d of None \<Rightarrow> vy p | Some r \<Rightarrow> vy p + r),
      vz = (case dz d of None \<Rightarrow> vz p | Some r \<Rightarrow> vz p + r)\<rparr>"

fun transform_entities ::
  "string \<Rightarrow> delta \<Rightarrow> (addr \<Rightarrow> Object3D) \<Rightarrow> ARModel list \<Rightarrow> (addr \<Rightarrow> Object3D) \<times> ARModel list" where
  "transform_entities modelId d h [] = (h, [])"
| "transform_entities modelId d h (m # ms) =
     (if ar_id m = modelId \<and> \<not> locked m then
        (let p = move_by (position (h (model m))) d;
             h1 = h(model m := (h (model m))\<lparr>position := p\<rparr>)
         in case transform_entities modelId d h1 ms of
              (h2, ms') \<Rightarrow> (h2, m\<lparr>ar_position := p\<rparr> # ms'))
      else (case transform_entities modelId d h ms of (h2, ms') \<Rightarrow> (h2, m # ms')))"

definition transformModel_B :: "string \<Rightarrow> delta \<Rightarrow> viewer \<Rightarrow> viewer" where
  "transformModel_B modelId d s =
     (case transform_entities modelId d (objects s) (arModels s) of
        (h, ms) \<Rightarrow> s\<lparr>objects := h, arModels := ms\<rparr>)"

text \<open>
  \<^verbatim>\<open>parseInt(text, 16)\<close>: leading white space is skipped, a sign and a \<^verbatim>\<open>0x\<close> prefix
  are accepted, the longest run of hexadecimal digits is read, and there is no number
  (\<^verbatim>\<open>NaN\<close>) when that run is empty. The value of the digits is exact and is then
  rounded to the nearest double, which changes it from \<open>2\<^sup>5\<^sup>3\<close> on. The result is a
  whole number or, as \<^const>\<open>None\<close>, one of \<^verbatim>\<open>NaN\<close> and the infinities.
  \<^verbatim>\<open>Color.setHex\<close> keeps the low 24 bits, and gives black for \<^verbatim>\<open>NaN\<close> and the
  infinities.
\<close>

definition hex_value :: "char \<Rightarrow> nat option" where
  "hex_value c =
     (let n = (of_char c :: nat)
      in if 48 \<le> n \<and> n \<le> 57 then Some (n - 48)
         else if 97 \<le> n \<and> n \<le> 102 then Some (n - 87)
         else if 65 \<le> n \<and> n \<le> 70 then Some (n - 55)
         else None)"

definition is_white_space :: "char \<Rightarrow> bool" where
  "is_white_space c = ((of_char c :: nat) \<in> {9, 10, 11, 12, 13, 32, 160})"

fun bit_length :: "nat \<Rightarrow> nat" where
  "bit_length n = (if n = 0 then 0 else Suc (bit_length (n div 2)))"

definition to_double :: "int \<Rightarrow> int option" where
  \<comment> \<open>a non-negative integer as a Number: 53 significant bits, ties to even; \<^const>\<open>None\<close>
      when the rounded value is beyond the doubles (\<^verbatim>\<open>Infinity\<close>)\<close>
  "to_double n =
     (let b = bit_length (nat n)
      in if b \<le> 53 then Some n
         else (let e = b - 53; q = n div 2 ^ e; r = n mod 2 ^ e; half = 2 ^ (e - 1);
                   m = (if half < r \<or> (r = half \<and> odd q) then q + 1 else q) * 2 ^ e
               in if 2 ^ 1024 \<le> m then None else Some m))"

definition hex_number :: "string \<Rightarrow> int option" where
  "hex_number t =
     (let digits = takeWhile (\<lambda>c. hex_value c \<noteq> None) t
      in if digits = [] then None
         else to_double (foldl (\<lambda>acc c. 16 * acc + int (the (hex_value c))) 0 digits))"

definition strip_0x :: "string \<Rightarrow> string" where
  "strip_0x t = (if take 2 t = ''0x'' \<or> take 2 t = ''0X'' then drop 2 t else t)"

definition parseInt16 :: "string \<Rightarrow> int option" where
  "parseInt16 text =
     (let t = dropWhile is_white_space text
      in case t of
           [] \<Rightarrow> None
         | c # cs \<Rightarrow>
             if c = CHR ''-'' then map_option uminus (hex_number (strip_0x cs))
             else if c = CHR ''+'' then hex_number (strip_0x cs)
             else hex_number (strip_0x t))"

fun replace_first :: "char \<Rightarrow> string \<Rightarrow> string" where
  \<comment> \<open>\<^verbatim>\<open>text.replace('#', '')\<close>: the first occurrence only\<close>
  "replace_first c [] = []"
| "replace_first c (x # xs) = (if x = c then xs else x # replace_first c xs)"

definition setHex :: "int option \<Rightarrow> int" where
  "setHex hex = (case hex of None \<Rightarrow> 0 | Some h \<Rightarrow> h mod 0x1000000)"

definition color_hex :: "string option \<Rightarrow> int" where
  \<comment> \<open>\<^verbatim>\<open>parseInt(material.color?.replace('#', '') || 'ffffff', 16)\<close>, passed to \<^verbatim>\<open>setHex\<close>\<close>
  "color_hex c =
     (let text = (case c of None \<Rightarrow> ''ffffff''
                  | Some v \<Rightarrow> if replace_first (CHR ''#'') v = [] then ''ffffff''
                              else replace_first (CHR ''#'') v)
      in setHex (parseInt16 text))"

definition recolor :: "string \<Rightarrow> ARModel \<Rightarrow> (addr \<Rightarrow> Object3D) \<Rightarrow> (addr \<Rightarrow> Object3D)" where
  \<comment> \<open>the material is looked up in the entity's own list; only a \<^verbatim>\<open>THREE.Mesh\<close> is recoloured\<close>
  "recolor materialId m h =
     (case find (\<lambda>x. m_id x = materialId) (materials m) of
        None \<Rightarrow> h
      | Some material \<Rightarrow>
          if isMesh (h (model m))
          then h(model m := (h (model m))\<lparr>materialColor := color_hex (color material)\<rparr>)
          else h)"

fun select_entities ::
  "string \<Rightarrow> string \<Rightarrow> (addr \<Rightarrow> Object3D) \<Rightarrow> ARModel list \<Rightarrow> (addr \<Rightarrow> Object3D) \<times> ARModel list" where
  "select_entities modelId materialId h [] = (h, [])"
| "select_entities modelId materialId h (m # ms) =
     (if ar_id m = modelId then
        (case select_entities modelId materialId (recolor materialId m h) ms of
           (h2, ms') \<Rightarrow> (h2, m\<lparr>selectedMaterial := Some materialId\<rparr> # ms'))
      else (case select_entities modelId materialId h ms of (h2, ms') \<Rightarrow> (h2, m # ms')))"

definition handleMaterialSelect :: "string \<Rightarrow> string \<Rightarrow> viewer \<Rightarrow> viewer" where
  "handleMaterialSelect modelId materialId s =
     (case select_entities modelId materialId (objects s) (arModels s) of
        (h, ms) \<Rightarrow>
          notify (mk_toast ''Material Applied'' ''Model material has been updated successfully.''
                    None)
            (s\<lparr>objects := h, arModels := ms\<rparr>))"

definition removeSelected_B :: "viewer \<Rightarrow> viewer" where
  "removeSelected_B s =
     s\<lparr>arModels := filter (\<lambda>m. Some (ar_id m) \<noteq> selectedModel s) (arModels s),
       selectedModel := None\<rparr>"

subsection \<open>Events\<close>

text \<open>
  What can happen to a mounted component: the user's requests and the callbacks of the
  environment. An event that has no handler in a variant, or that settles a load which is
  not in flight, leaves the state as it is. \<open>InitScene\<close> is the body of the effect that
  builds the scene, run with the mount point present; \<open>CameraStarted\<close> is the branch of
  \<^verbatim>\<open>startCamera\<close> taken when the stream is granted and the video element is there.
\<close>

datatype event =
    SpawnModel string
  | LoadProgress nat nat
  | GLBSettled nat "load_error + Object3D" real real nat
  | MindSettled nat mind_outcome nat
  | ToggleModelLock string
  | TransformModel string delta
  | MaterialSelect string string
  | SetSelectedModel string
  | SetControlMode controlMode_t
  | RemoveSelected
  | InitScene
  | CameraStarted
  | StopCamera

fun step_A :: "event \<Rightarrow> viewer \<Rightarrow> viewer" where
  "step_A (SpawnModel n) s = spawnModel_A n s"
| "step_A (LoadProgress i percent) s = progress_A i percent s"
| "step_A (GLBSettled i r r1 r2 now) s = glbSettled_A i r r1 r2 s"
| "step_A (MindSettled i out now) s = mindSettled_A i out now s"
| "step_A (ToggleModelLock i) s = toggleModelLock_A i s"
| "step_A (TransformModel i d) s = transformModel_A i d s"
| "step_A (MaterialSelect i m) s = handleMaterialSelect i m s"
| "step_A (SetSelectedModel i) s = s\<lparr>selectedModel := Some i\<rparr>"
| "step_A (SetControlMode m) s = s\<lparr>controlMode := m\<rparr>"
| "step_A RemoveSelected s = s"
| "step_A InitScene s = initScene_A s"
| "step_A CameraStarted s =
     initScene_A (notify (mk_toast ''Camera Started''
       ''AR camera is now active. Upload .mind and .glb files to begin tracking.'' None)
       (s\<lparr>cameraActive := True\<rparr>))"
| "step_A StopCamera s = s\<lparr>cameraActive := False\<rparr>"

fun step_B :: "event \<Rightarrow> viewer \<Rightarrow> viewer" where
  "step_B (SpawnModel n) s = spawnModel_B n s"
| "step_B (LoadProgress i percent) s = progress_B i percent s"
| "step_B (GLBSettled i r r1 r2 now) s = glbSettled_B i r now s"
| "step_B (MindSettled i out now) s = s"
| "step_B (ToggleModelLock i) s = toggleModelLock_B i s"
| "step_B (TransformModel i d) s = transformModel_B i d s"
| "step_B (MaterialSelect i m) s = s"
| "step_B (SetSelectedModel i) s = s\<lparr>selectedModel := Some i\<rparr>"
| "step_B (SetControlMode m) s = s\<lparr>controlMode := m\<rparr>"
| "step_B RemoveSelected s = removeSelected_B s"
| "step_B InitScene s = initScene_B s"
| "step_B CameraStarted s = s\<lparr>cameraActive := True\<rparr>"
| "step_B StopCamera s = s\<lparr>cameraActive := False\<rparr>"

definition run_A :: "event list \<Rightarrow> viewer \<Rightarrow> viewer" where
  "run_A evs s = foldl (\<lambda>st e. step_A e st) s evs"

definition run_B :: "event list \<Rightarrow> viewer \<Rightarrow> viewer" where
  "run_B evs s = foldl (\<lambda>st e. step_B e st) s evs"

definition index_of :: "filesystem \<Rightarrow> path \<Rightarrow> string \<Rightarrow> string" where
  \<comment> \<open>the text \<^verbatim>\<open>generateIndex\<close> writes for a listing\<close>
  "index_of fs p extension =
     JSON_stringify (sort (filter (\<lambda>file. endsWith file extension) (names_in fs p)))"

subsection \<open>Auxiliary notions\<close>

definition transformed_A :: "controlMode_t \<Rightarrow> delta \<Rightarrow> Object3D \<Rightarrow> Object3D" where
  \<comment> \<open>what the three branches of variant A do to the object\<close>
  "transformed_A mode d obj =
     (case mode of
        Move \<Rightarrow> obj\<lparr>position := v_add (position obj) (vec (or0 (dx d)) (or0 (dy d)) (or0 (dz d)))\<rparr>
      | Rotate \<Rightarrow> obj\<lparr>rotation := v_add (rotation obj) (vec (or0 (dx d)) (or0 (dy d)) (or0 (dz d)))\<rparr>
      | Scale \<Rightarrow> obj\<lparr>scale := multiplyScalar (scale obj) (1 + or0 (dx d) * 0.1)\<rparr>)"

subsection \<open>The loading flag\<close>

definition single_load :: "viewer \<Rightarrow> bool" where
  \<comment> \<open>nothing is in flight, or the flag is set and exactly one load is\<close>
  "single_load s = (inFlight s = [] \<or> (isLoading s \<and> length (inFlight s) = 1))"

subsection \<open>The scene and its camera\<close>


section \<open>Example inputs\<close>

definition example_dirname :: path where
  "example_dirname = [''app'', ''scripts'']"

definition example_fs :: filesystem where
  "example_fs =
     [([], Dir), ([''app''], Dir), ([''app'', ''public''], Dir),
      ([''app'', ''public'', ''3d''], Dir),
      ([''app'', ''public'', ''3d'', ''sofa.glb''], File ''glTF-sofa''),
      ([''app'', ''public'', ''3d'', ''notes.txt''], File ''to do''),
      ([''app'', ''public'', ''3d'', ''chair.glb''], File ''glTF-chair'')]"

definition example_index :: string where
  "example_index =
     ''['' @ [CHR 0x0A] @ ''  '' @ [CHR 0x22] @ ''chair.glb'' @ [CHR 0x22] @ '','' @ [CHR 0x0A]
       @ ''  '' @ [CHR 0x22] @ ''sofa.glb'' @ [CHR 0x22] @ [CHR 0x0A] @ '']''"

definition example_fs_indexed :: filesystem where
  "example_fs_indexed =
     example_fs @ [([''app'', ''public'', ''3d'', ''index.json''], File example_index)]"

definition example_entity :: ARModel where
  "example_entity =
     \<lparr>ar_id = ''chair-1'', ar_name = ''chair'', model = 0, ar_position = vec 0 0 3,
      ar_rotation = vec 0 0 0, ar_scale = vec 1 1 1, locked = False,
      selectedMaterial = Some ''leather-brown'', materials = chairMaterials\<rparr>"

definition example_viewer :: viewer where
  \<comment> \<open>one chair placed, a single mesh, nothing loading\<close>
  "example_viewer =
     initial\<lparr>sceneRef := Some [0], cameraRef := Some new_camera,
       objects := (\<lambda>_. new_object)(0 := new_object\<lparr>position := vec 0 0 3, isMesh := True\<rparr>),
       nextObject := 1, arModels := [example_entity], selectedModel := Some ''chair-1''\<rparr>"


definition example_loading :: viewer where
  \<comment> \<open>an empty scene, the load of \<^verbatim>\<open>lamp\<close> in flight\<close>
  "example_loading =
     initial\<lparr>sceneRef := Some [], cameraRef := Some new_camera, isLoading := True,
       activeModel := Some ''lamp'', inFlight := [GLBLoad ''lamp'']\<rparr>"

definition example_asset :: Object3D where
  \<comment> \<open>a decoded scene group whose bounding box has a diagonal of 3\<close>
  "example_asset = new_object\<lparr>boundingSize := 3\<rparr>"

section \<open>Properties of the material catalog\<close>

lemma str_includes_iff_sublist: "str_includes s needle \<longleftrightarrow> sublist needle s"
  by (induction s) (auto simp: sublist_Cons_right)

lemma chairMaterials_palette: "chairMaterials = chair_palette"
  by (simp add: chairMaterials_def chair_palette_def mk_material_def)

lemma sofaMaterials_palette: "sofaMaterials = sofa_palette"
  by (simp add: sofaMaterials_def sofa_palette_def chairMaterials_def mk_material_def)

lemma tableMaterials_palette:
  "filter (\<lambda>m. str_includes (m_id m) ''wood'' \<or> str_includes (m_id m) ''metal'') chairMaterials
     = table_palette"
  by (simp add: table_palette_def chairMaterials_def mk_material_def)

lemma defaultMaterials_palette: "defaultMaterials = default_palette"
  by (simp add: defaultMaterials_def default_palette_def mk_material_def)

lemma getModelMaterials_cases:
  "getModelMaterials modelName =
     (if sublist ''chair'' (toLowerCase modelName) then chair_palette
      else if sublist ''sofa'' (toLowerCase modelName) \<or> sublist ''couch'' (toLowerCase modelName)
        then sofa_palette
      else if sublist ''table'' (toLowerCase modelName) then table_palette
      else default_palette)"
  unfolding getModelMaterials_def Let_def tableMaterials_palette
  by (simp only: chairMaterials_palette sofaMaterials_palette defaultMaterials_palette
      str_includes_iff_sublist)

lemma toLowerCase_examples:
  "toLowerCase ''Chair'' = ''chair''"
  "toLowerCase ''CHAIR'' = ''chair''"
  "toLowerCase ''loveseat-chair'' = ''loveseat-chair''"
  "toLowerCase ''sofa'' = ''sofa''"
  "toLowerCase ''couch'' = ''couch''"
  "toLowerCase ''lamp'' = ''lamp''"
  "toLowerCase ''Kitchen Table'' = ''kitchen table''"
  by code_simp+

text \<open>
  Claim C1. For every model name, \<^const>\<open>getModelMaterials\<close> tests the lowercased name for
  the substrings in order: \<^verbatim>\<open>chair\<close> gives the chair palette; otherwise \<^verbatim>\<open>sofa\<close> or
  \<^verbatim>\<open>couch\<close> gives the sofa palette; otherwise \<^verbatim>\<open>table\<close> gives the table palette; any
  other name gives the four-entry default palette in its defined order. \<^verbatim>\<open>Chair\<close>,
  \<^verbatim>\<open>CHAIR\<close> and \<^verbatim>\<open>loveseat-chair\<close> resolve to the chair palette, \<^verbatim>\<open>sofa\<close> and
  \<^verbatim>\<open>couch\<close> to the sofa palette, \<^verbatim>\<open>lamp\<close> to the default palette. (Substring is
  \<^const>\<open>sublist\<close> of the library; the palettes are the lists written out entry by entry.)
\<close>

theorem getModelMaterials_ordered_lookup:
  "getModelMaterials modelName =
     (if sublist ''chair'' (toLowerCase modelName) then chair_palette
      else if sublist ''sofa'' (toLowerCase modelName) \<or> sublist ''couch'' (toLowerCase modelName)
        then sofa_palette
      else if sublist ''table'' (toLowerCase modelName) then table_palette
      else default_palette)
   \<and> getModelMaterials ''Chair'' = chair_palette
   \<and> getModelMaterials ''CHAIR'' = chair_palette
   \<and> getModelMaterials ''loveseat-chair'' = chair_palette
   \<and> getModelMaterials ''sofa'' = sofa_palette
   \<and> getModelMaterials ''couch'' = sofa_palette
   \<and> getModelMaterials ''lamp'' = default_palette
   \<and> map m_id default_palette
       = [''default-red'', ''default-blue'', ''default-green'', ''default-purple'']"
proof -
  have ex: "getModelMaterials ''Chair'' = chair_palette"
    "getModelMaterials ''CHAIR'' = chair_palette"
    "getModelMaterials ''loveseat-chair'' = chair_palette"
    "getModelMaterials ''sofa'' = sofa_palette"
    "getModelMaterials ''couch'' = sofa_palette"
    "getModelMaterials ''lamp'' = default_palette"
    by (simp_all add: getModelMaterials_def toLowerCase_examples chairMaterials_palette
        sofaMaterials_palette defaultMaterials_palette)
  have ids: "map m_id default_palette
       = [''default-red'', ''default-blue'', ''default-green'', ''default-purple'']"
    by (simp add: default_palette_def)
  show ?thesis
    using getModelMaterials_cases [of modelName] ex ids by blast
qed

theorem getModelMaterials_ordered_lookup_witness:
  "getModelMaterials ''Kitchen Table'' = table_palette"
proof -
  have "\<not> sublist ''chair'' ''kitchen table''" "\<not> sublist ''sofa'' ''kitchen table''"
    "\<not> sublist ''couch'' ''kitchen table''" "sublist ''table'' ''kitchen table''"
    unfolding str_includes_iff_sublist [symmetric] by simp_all
  then show ?thesis
    using getModelMaterials_ordered_lookup [of "''Kitchen Table''"]
    by (simp add: toLowerCase_examples)
qed

section \<open>Properties of the asset indexer\<close>


lemma mkdirs_append:
  "mkdirs fs qs = Inr fs' \<Longrightarrow>
     \<exists>new. fs' = fs @ new \<and> fst ` set new \<subseteq> set qs \<and> (\<forall>x\<in>set new. snd x = Dir)"
proof (induction qs arbitrary: fs)
  case Nil then show ?case by simp
next
  case (Cons q qs)
  show ?case
  proof (cases "map_of fs q")
    case None
    with Cons.prems have "mkdirs (fs @ [(q, Dir)]) qs = Inr fs'" by simp
    from Cons.IH [OF this] obtain new where
      "fs' = (fs @ [(q, Dir)]) @ new" "fst ` set new \<subseteq> set qs" "\<forall>x\<in>set new. snd x = Dir"
      by blast
    then show ?thesis
      by (intro exI [of _ "(q, Dir) # new"]) auto
  next
    case (Some n)
    with Cons.prems have "mkdirs fs qs = Inr fs'"
      by (cases n) (simp_all)
    from Cons.IH [OF this] show ?thesis by auto
  qed
qed

lemma mkdirs_present:
  "mkdirs fs qs = Inr fs' \<Longrightarrow> q \<in> set qs \<Longrightarrow> map_of fs' q = Some Dir"
proof (induction qs arbitrary: fs)
  case Nil then show ?case by simp
next
  case (Cons a qs)
  show ?case
  proof (cases "map_of fs a")
    case None
    with Cons.prems have step: "mkdirs (fs @ [(a, Dir)]) qs = Inr fs'" by simp
    show ?thesis
    proof (cases "q \<in> set qs")
      case True with Cons.IH [OF step] show ?thesis by simp
    next
      case False
      with Cons.prems have "q = a" by simp
      from mkdirs_append [OF step] obtain new where "fs' = (fs @ [(a, Dir)]) @ new" by blast
      then show ?thesis using None \<open>q = a\<close> by (simp add: map_add_Some_iff)
    qed
  next
    case (Some n)
    with Cons.prems have step: "mkdirs fs qs = Inr fs'" and n: "n = Dir"
      by (cases n; simp)+
    show ?thesis
    proof (cases "q \<in> set qs")
      case True with Cons.IH [OF step] show ?thesis by simp
    next
      case False
      with Cons.prems have "q = a" by simp
      from mkdirs_append [OF step] obtain new where "fs' = fs @ new" by blast
      then show ?thesis using Some n \<open>q = a\<close> by (simp add: map_add_Some_iff)
    qed
  qed
qed


lemma index_path: "path_join p [''index.json''] = p @ [''index.json'']"
  by (simp add: path_join_def norm_step_def)

lemma names_in_append: "names_in (fs @ new) p = names_in fs p @ names_in new p"
  by (simp add: names_in_def)

lemma not_prefix_snoc: "\<not> prefix (p @ [x]) p"
  by (auto dest: prefix_length_le)

lemma names_in_prefixes_empty:
  assumes "fst ` set new \<subseteq> set (prefixes p)"
  shows "names_in new p = []"
proof -
  have "\<not> (q \<noteq> [] \<and> butlast q = p)" if "q \<in> fst ` set new" for q
  proof
    assume a: "q \<noteq> [] \<and> butlast q = p"
    then have "q = p @ [last q]" by (metis append_butlast_last_id)
    moreover from that assms have "prefix q p" by auto
    ultimately show False using not_prefix_snoc by metis
  qed
  then show ?thesis by (auto simp: names_in_def filter_empty_conv)
qed



lemma generateIndex_InrD:
  assumes "generateIndex dirname fs directory extension = Inr fs'"
  defines "p \<equiv> public_path dirname directory"
  shows "\<exists>new. fs' = AList.update (p @ [''index.json'']) (File (index_of fs p extension)) (fs @ new)
           \<and> fst ` set new \<subseteq> set (prefixes p) \<and> (\<forall>x\<in>set new. snd x = Dir)
           \<and> map_of (fs @ new) p = Some Dir"
proof (cases "existsSync fs p")
  case True
  with assms(1) have rd: "map_of fs p = Some Dir"
    by (auto simp: generateIndex_def Let_def p_def readdirSync_def split: option.splits node.splits)
  from assms(1) True rd have "fs' = AList.update (p @ [''index.json'']) (File (index_of fs p extension)) fs"
    by (auto simp: generateIndex_def Let_def p_def [symmetric] readdirSync_def writeFileSync_def
        index_path index_of_def split: option.splits node.splits)
  with rd show ?thesis by (intro exI [of _ "[]"]) simp
next
  case False
  with assms(1) obtain fs1 where mk: "mkdirs fs (prefixes p) = Inr fs1"
    by (auto simp: generateIndex_def Let_def p_def mkdirSync_recursive_def split: sum.splits)
  from mkdirs_append [OF mk] obtain new where new: "fs1 = fs @ new"
    "fst ` set new \<subseteq> set (prefixes p)" "\<forall>x\<in>set new. snd x = Dir" by blast
  have dir: "map_of fs1 p = Some Dir" by (rule mkdirs_present [OF mk]) simp
  have "names_in fs1 p = names_in fs p"
    by (simp add: new(1) names_in_append names_in_prefixes_empty [OF new(2)])
  with assms(1) False mk dir
  have "fs' = AList.update (p @ [''index.json'']) (File (index_of fs p extension)) fs1"
    by (auto simp: generateIndex_def Let_def p_def [symmetric] mkdirSync_recursive_def
        readdirSync_def writeFileSync_def index_path index_of_def split: option.splits node.splits)
  with new dir show ?thesis by blast
qed




lemma names_in_update:
  "names_in (AList.update (p @ [x]) v fs) p
     = (if p @ [x] \<in> fst ` set fs then names_in fs p else names_in fs p @ [x])"
  by (simp add: names_in_def AList.update_keys)

lemma names_filter_after_run:
  assumes "\<not> endsWith x extension"
  shows "filter (\<lambda>file. endsWith file extension) (names_in (AList.update (p @ [x]) v fs) p)
       = filter (\<lambda>file. endsWith file extension) (names_in fs p)"
  using assms by (simp add: names_in_update)

lemma generateIndex_fixed_point:
  assumes nm: "\<not> endsWith ''index.json'' extension"
    and run: "generateIndex dirname fs directory extension = Inr fs1"
  shows "generateIndex dirname fs1 directory extension = Inr fs1"
proof -
  define p where "p = public_path dirname directory"
  define c where "c = index_of fs p extension"
  from generateIndex_InrD [OF run] obtain new where
    fs1: "fs1 = AList.update (p @ [''index.json'']) (File c) (fs @ new)"
    and new: "fst ` set new \<subseteq> set (prefixes p)"
    and dir: "map_of (fs @ new) p = Some Dir"
    unfolding p_def c_def by blast
  have d1: "map_of fs1 p = Some Dir" using dir by (simp add: fs1 AList.update_conv')
  have i1: "map_of fs1 (p @ [''index.json'']) = Some (File c)" by (simp add: fs1 AList.update_conv')
  have "names_in (fs @ new) p = names_in fs p"
    by (simp add: names_in_append names_in_prefixes_empty [OF new])
  then have "index_of fs1 p extension = c"
    unfolding index_of_def c_def fs1 names_filter_after_run [OF nm] by simp
  then have "generateIndex dirname fs1 directory extension
      = Inr (AList.update (p @ [''index.json'']) (File c) fs1)"
    using d1 i1
    by (simp add: generateIndex_def Let_def p_def [symmetric] existsSync_def readdirSync_def
        writeFileSync_def index_path index_of_def)
  also have "AList.update (p @ [''index.json'']) (File c) fs1 = fs1"
    by (rule AList.update_triv [OF i1])
  finally show ?thesis .
qed

text \<open>
  Claim C7. The indexer is idempotent: run a second time on the file system the first run
  left (unchanged apart from the \<^verbatim>\<open>index.json\<close> the first run wrote), it leaves every
  file as it is, and \<^verbatim>\<open>index.json\<close> holds the text of the first run byte for byte,
  because \<^verbatim>\<open>index.json\<close> does not end with \<^verbatim>\<open>.glb\<close> or \<^verbatim>\<open>.mind\<close>.
\<close>

theorem generateIndex_idempotent:
  assumes "extension = ''.glb'' \<or> extension = ''.mind''"
    and "generateIndex dirname fs directory extension = Inr fs1"
  shows "generateIndex dirname fs1 directory extension = Inr fs1
       \<and> map_of fs1 (public_path dirname directory @ [''index.json''])
           = Some (File (index_of fs (public_path dirname directory) extension))"
proof -
  have "\<not> endsWith ''index.json'' extension"
    using assms(1) by (auto simp: endsWith_def)
  then have "generateIndex dirname fs1 directory extension = Inr fs1"
    using assms(2) by (rule generateIndex_fixed_point)
  moreover have "map_of fs1 (public_path dirname directory @ [''index.json''])
      = Some (File (index_of fs (public_path dirname directory) extension))"
    using generateIndex_InrD [OF assms(2)] by (auto simp: AList.update_conv')
  ultimately show ?thesis ..
qed



lemma generateIndex_example:
  "generateIndex example_dirname example_fs ''3d'' ''.glb'' = Inr example_fs_indexed"
  unfolding example_dirname_def example_fs_def example_fs_indexed_def example_index_def
  by code_simp


theorem generateIndex_idempotent_witness:
  "generateIndex example_dirname example_fs ''3d'' ''.glb'' = Inr example_fs_indexed
   \<and> generateIndex example_dirname example_fs_indexed ''3d'' ''.glb'' = Inr example_fs_indexed"
proof -
  have ext: "''.glb'' = ''.glb'' \<or> ''.glb'' = ''.mind''" by simp
  show ?thesis
    using generateIndex_example
      generateIndex_idempotent [OF ext generateIndex_example, THEN conjunct1]
    by simp
qed

text \<open>
  The whole script, which indexes \<^verbatim>\<open>3d\<close> and then \<^verbatim>\<open>minds\<close>, is idempotent too: the
  second directory's run leaves the first directory's listing alone.
\<close>

lemma public_path_simple:
  "public_path dirname ''3d'' = path_join dirname [''..'', ''public''] @ [''3d'']"
  "public_path dirname ''minds'' = path_join dirname [''..'', ''public''] @ [''minds'']"
  by (simp_all add: public_path_def path_join_def norm_step_def)

lemma generateIndex_fixed_if:
  assumes "map_of fs (public_path dirname directory) = Some Dir"
    and "map_of fs (public_path dirname directory @ [''index.json''])
          = Some (File (index_of fs (public_path dirname directory) extension))"
  shows "generateIndex dirname fs directory extension = Inr fs"
proof -
  have "generateIndex dirname fs directory extension
      = Inr (AList.update (public_path dirname directory @ [''index.json''])
          (File (index_of fs (public_path dirname directory) extension)) fs)"
    using assms
    by (simp add: generateIndex_def Let_def existsSync_def readdirSync_def writeFileSync_def
        index_path index_of_def)
  then show ?thesis by (simp add: AList.update_triv [OF assms(2)])
qed

lemma generateIndex_keeps_sibling:
  assumes run: "generateIndex dirname fs directory extension = Inr fs'"
    and len: "length p = length (public_path dirname directory)"
    and ne: "p \<noteq> public_path dirname directory"
    and dir: "map_of fs p = Some Dir"
    and idx: "map_of fs (p @ [''index.json'']) = Some (File (index_of fs p ext))"
  shows "map_of fs' p = Some Dir"
    and "map_of fs' (p @ [''index.json'']) = Some (File (index_of fs' p ext))"
proof -
  define q where "q = public_path dirname directory"
  from generateIndex_InrD [OF run] obtain new where
    fs': "fs' = AList.update (q @ [''index.json'']) (File (index_of fs q extension)) (fs @ new)"
    and new: "fst ` set new \<subseteq> set (prefixes q)"
    unfolding q_def by blast
  have pq: "p \<noteq> q @ [''index.json'']" using len by (auto simp: q_def)
  show "map_of fs' p = Some Dir"
    using dir pq by (simp add: fs' AList.update_conv' map_add_def)
  have "\<not> (k \<noteq> [] \<and> butlast k = p)" if "k \<in> fst ` set new" for k
  proof
    assume a: "k \<noteq> [] \<and> butlast k = p"
    then have "length k = Suc (length p)" by (cases k rule: rev_cases) auto
    moreover from that new have "prefix k q" by auto
    then have "length k \<le> length q" by (rule prefix_length_le)
    ultimately show False using len by (simp add: q_def)
  qed
  then have n0: "names_in new p = []" by (auto simp: names_in_def filter_empty_conv)
  have "butlast (q @ [''index.json'']) \<noteq> p" using ne by (simp add: q_def)
  then have "names_in fs' p = names_in (fs @ new) p"
    by (simp add: fs' names_in_def AList.update_keys)
  then have "index_of fs' p ext = index_of fs p ext"
    by (simp add: index_of_def names_in_append n0)
  moreover have "p @ [''index.json''] \<noteq> q @ [''index.json'']" using ne by (simp add: q_def)
  ultimately show "map_of fs' (p @ [''index.json'']) = Some (File (index_of fs' p ext))"
    using idx by (simp add: fs' AList.update_conv' map_add_def)
qed

lemma generateIndex_result_fixed:
  assumes nm: "\<not> endsWith ''index.json'' extension"
    and run: "generateIndex dirname fs directory extension = Inr fs1"
  shows "map_of fs1 (public_path dirname directory) = Some Dir"
    and "map_of fs1 (public_path dirname directory @ [''index.json''])
          = Some (File (index_of fs1 (public_path dirname directory) extension))"
proof -
  define p where "p = public_path dirname directory"
  from generateIndex_InrD [OF run] obtain new where
    fs1: "fs1 = AList.update (p @ [''index.json'']) (File (index_of fs p extension)) (fs @ new)"
    and new: "fst ` set new \<subseteq> set (prefixes p)"
    and dir: "map_of (fs @ new) p = Some Dir"
    unfolding p_def by blast
  show "map_of fs1 p = Some Dir" using dir by (simp add: fs1 AList.update_conv')
  have "names_in (fs @ new) p = names_in fs p"
    by (simp add: names_in_append names_in_prefixes_empty [OF new])
  then have "index_of fs1 p extension = index_of fs p extension"
    unfolding index_of_def fs1 names_filter_after_run [OF nm] by simp
  then show "map_of fs1 (p @ [''index.json'']) = Some (File (index_of fs1 p extension))"
    by (simp add: fs1 AList.update_conv')
qed

lemma main_idempotent:
  assumes "main dirname fs = Inr (fs2, b)"
  shows "main dirname fs2 = Inr (fs2, True)"
proof -
  from assms obtain fs1 where
    r1: "generateIndex dirname fs ''3d'' ''.glb'' = Inr fs1"
    and r2: "generateIndex dirname fs1 ''minds'' ''.mind'' = Inr fs2"
    by (auto simp: main_def split: sum.splits)
  have n1: "\<not> endsWith ''index.json'' ''.glb''" and n2: "\<not> endsWith ''index.json'' ''.mind''"
    by (simp_all add: endsWith_def)
  have len: "length (public_path dirname ''3d'') = length (public_path dirname ''minds'')"
    and ne: "public_path dirname ''3d'' \<noteq> public_path dirname ''minds''"
    by (simp_all add: public_path_simple)
  note f1 = generateIndex_result_fixed [OF n1 r1]
  note k = generateIndex_keeps_sibling [OF r2 len ne f1]
  have a: "generateIndex dirname fs2 ''3d'' ''.glb'' = Inr fs2"
    by (rule generateIndex_fixed_if [OF k])
  have b: "generateIndex dirname fs2 ''minds'' ''.mind'' = Inr fs2"
    by (rule generateIndex_fixed_point [OF n2 r2])
  show ?thesis by (simp add: main_def a b)
qed

text \<open>
  The restriction to the two extensions matters: for \<^verbatim>\<open>.json\<close> the second run lists
  the \<^verbatim>\<open>index.json\<close> the first run wrote. And the calls that abort are these.
\<close>

lemma generateIndex_json_not_idempotent:
  "\<exists>fs1 fs2. generateIndex example_dirname example_fs ''3d'' ''.json'' = Inr fs1
     \<and> generateIndex example_dirname fs1 ''3d'' ''.json'' = Inr fs2 \<and> fs2 \<noteq> fs1"
proof -
  have 1: "generateIndex example_dirname example_fs ''3d'' ''.json''
      = Inr (example_fs @ [([''app'', ''public'', ''3d'', ''index.json''], File ''[]'')])"
    unfolding example_dirname_def example_fs_def by code_simp
  have 2: "generateIndex example_dirname
        (example_fs @ [([''app'', ''public'', ''3d'', ''index.json''], File ''[]'')]) ''3d'' ''.json''
      = Inr (example_fs @ [([''app'', ''public'', ''3d'', ''index.json''],
               File (JSON_stringify [''index.json'']))])"
    unfolding example_dirname_def example_fs_def by code_simp
  have 3: "JSON_stringify [''index.json''] \<noteq> ''[]''"
    by (simp add: JSON_stringify_def)
  from 1 2 3 show ?thesis by simp
qed

lemma generateIndex_target_is_file:
  "generateIndex example_dirname [([], Dir), ([''app''], Dir), ([''app'', ''public''], Dir),
       ([''app'', ''public'', ''3d''], File ''x'')] ''3d'' ''.glb''
     = Inl (ENOTDIR, [([], Dir), ([''app''], Dir), ([''app'', ''public''], Dir),
       ([''app'', ''public'', ''3d''], File ''x'')])"
  unfolding example_dirname_def by code_simp

lemma generateIndex_index_is_directory:
  "generateIndex example_dirname [([], Dir), ([''app''], Dir), ([''app'', ''public''], Dir),
       ([''app'', ''public'', ''3d''], Dir), ([''app'', ''public'', ''3d'', ''index.json''], Dir)]
       ''3d'' ''.glb''
     = Inl (EISDIR, [([], Dir), ([''app''], Dir), ([''app'', ''public''], Dir),
       ([''app'', ''public'', ''3d''], Dir), ([''app'', ''public'', ''3d'', ''index.json''], Dir)])"
  unfolding example_dirname_def by code_simp


section \<open>Properties of the AR viewer\<close>

subsection \<open>One load at a time\<close>

lemma inFlight_notify [simp]: "inFlight (notify t s) = inFlight s"
  by (simp add: notify_def)

lemma isLoading_notify [simp]: "isLoading (notify t s) = isLoading s"
  by (simp add: notify_def)

lemma inFlight_finish [simp]: "inFlight (finish s) = inFlight s"
  by (simp add: finish_def)

lemma single_load_cong:
  "inFlight s' = inFlight s \<Longrightarrow> isLoading s' = isLoading s \<Longrightarrow> single_load s \<Longrightarrow> single_load s'"
  by (simp add: single_load_def)

lemma single_load_idle: "inFlight s = [] \<Longrightarrow> single_load s"
  by (simp add: single_load_def)

lemma single_load_single:
  assumes "single_load s" "i < length (inFlight s)"
  obtains t where "inFlight s = [t]" "i = 0" "isLoading s"
proof -
  from assms have "isLoading s" "length (inFlight s) = 1" by (auto simp: single_load_def)
  then show ?thesis using assms(2) that by (cases "inFlight s") auto
qed

lemma single_load_spawnModel_A: "single_load s \<Longrightarrow> single_load (spawnModel_A n s)"
  by (auto simp: single_load_def spawnModel_A_def)

lemma single_load_spawnModel_B: "single_load s \<Longrightarrow> single_load (spawnModel_B n s)"
  by (auto simp: single_load_def spawnModel_B_def)

lemma single_load_progress_A: "single_load s \<Longrightarrow> single_load (progress_A i pc s)"
  by (rule single_load_cong [of _ s]) (simp_all add: progress_A_def split: task.splits)

lemma single_load_progress_B: "single_load s \<Longrightarrow> single_load (progress_B i pc s)"
  by (rule single_load_cong [of _ s]) (simp_all add: progress_B_def split: task.splits)

lemma single_load_glbSettled_A:
  assumes "single_load s" shows "single_load (glbSettled_A i r r1 r2 s)"
proof (cases "i < length (inFlight s)")
  case False then show ?thesis using assms by (simp add: glbSettled_A_def)
next
  case True
  from assms True obtain t where t: "inFlight s = [t]" "i = 0" "isLoading s"
    by (rule single_load_single)
  show ?thesis
  proof (cases t)
    case (GLBLoad n)
    show ?thesis
    proof (cases r)
      case (Inl e)
      have "inFlight (glbSettled_A i r r1 r2 s) = []"
        by (simp add: glbSettled_A_def t GLBLoad Inl remove_nth_def)
      then show ?thesis by (rule single_load_idle)
    next
      case (Inr g)
      have "inFlight (glbSettled_A i r r1 r2 s) = [MindFetch n (nextObject s)]"
        "isLoading (glbSettled_A i r r1 r2 s)"
        by (simp_all add: glbSettled_A_def t GLBLoad Inr remove_nth_def Let_def)
      then show ?thesis by (simp add: single_load_def)
    qed
  next
    case (MindFetch n a)
    then show ?thesis using assms by (simp add: glbSettled_A_def t)
  qed
qed

lemma single_load_glbSettled_B:
  assumes "single_load s" shows "single_load (glbSettled_B i r now s)"
proof (cases "i < length (inFlight s)")
  case False then show ?thesis using assms by (simp add: glbSettled_B_def)
next
  case True
  from assms True obtain t where t: "inFlight s = [t]" "i = 0" "isLoading s"
    by (rule single_load_single)
  show ?thesis
  proof (cases t)
    case (GLBLoad n)
    have "inFlight (glbSettled_B i r now s) = []"
      by (simp add: glbSettled_B_def t GLBLoad remove_nth_def Let_def
          split: sum.splits option.splits)
    then show ?thesis by (rule single_load_idle)
  next
    case (MindFetch n a)
    then show ?thesis using assms by (simp add: glbSettled_B_def t)
  qed
qed

lemma single_load_mindSettled_A:
  assumes "single_load s" shows "single_load (mindSettled_A i out now s)"
proof (cases "i < length (inFlight s)")
  case False then show ?thesis using assms by (simp add: mindSettled_A_def)
next
  case True
  from assms True obtain t where t: "inFlight s = [t]" "i = 0" "isLoading s"
    by (rule single_load_single)
  show ?thesis
  proof (cases t)
    case (GLBLoad n)
    then show ?thesis using assms by (simp add: mindSettled_A_def t)
  next
    case (MindFetch n a)
    have "inFlight (mindSettled_A i out now s) = []"
      by (simp add: mindSettled_A_def t MindFetch remove_nth_def Let_def split: option.splits)
    then show ?thesis by (rule single_load_idle)
  qed
qed

lemma frame_transformModel_A:
  "inFlight (transformModel_A i d s) = inFlight s"
  "isLoading (transformModel_A i d s) = isLoading s"
  by (simp_all add: transformModel_A_def Let_def split: option.splits controlMode_t.splits)

lemma frame_transformModel_B:
  "inFlight (transformModel_B i d s) = inFlight s"
  "isLoading (transformModel_B i d s) = isLoading s"
  by (simp_all add: transformModel_B_def split: prod.splits)

lemma frame_handleMaterialSelect:
  "inFlight (handleMaterialSelect i m s) = inFlight s"
  "isLoading (handleMaterialSelect i m s) = isLoading s"
  by (simp_all add: handleMaterialSelect_def split: prod.splits)

lemma frame_toggleModelLock:
  "inFlight (toggleModelLock_A i s) = inFlight s"
  "isLoading (toggleModelLock_A i s) = isLoading s"
  "inFlight (toggleModelLock_B i s) = inFlight s"
  "isLoading (toggleModelLock_B i s) = isLoading s"
  by (simp_all add: toggleModelLock_A_def toggleModelLock_B_def Let_def)

lemma frame_initScene:
  "inFlight (initScene_A s) = inFlight s"
  "isLoading (initScene_A s) = isLoading s"
  "inFlight (initScene_B s) = inFlight s"
  "isLoading (initScene_B s) = isLoading s"
  by (simp_all add: initScene_A_def initScene_B_def Let_def)

lemma single_load_step_A: "single_load s \<Longrightarrow> single_load (step_A e s)"
  by (cases e)
     (simp_all add: single_load_spawnModel_A single_load_progress_A single_load_glbSettled_A single_load_mindSettled_A,
      (erule single_load_cong [rotated 2];
       simp add: frame_transformModel_A frame_handleMaterialSelect frame_toggleModelLock
         frame_initScene)+)

lemma single_load_step_B: "single_load s \<Longrightarrow> single_load (step_B e s)"
  by (cases e)
     (simp_all add: single_load_spawnModel_B single_load_progress_B single_load_glbSettled_B,
      (erule single_load_cong [rotated 2];
       simp add: frame_transformModel_B frame_toggleModelLock frame_initScene
         removeSelected_B_def)+)

lemma single_load_run_A: "single_load s \<Longrightarrow> single_load (run_A evs s)"
  unfolding run_A_def by (induction evs arbitrary: s) (simp_all add: single_load_step_A)

lemma single_load_run_B: "single_load s \<Longrightarrow> single_load (run_B evs s)"
  unfolding run_B_def by (induction evs arbitrary: s) (simp_all add: single_load_step_B)

subsection \<open>Transforming and recolouring one entity\<close>

lemma find_unique:
  "distinct (map f xs) \<Longrightarrow> e \<in> set xs \<Longrightarrow> find (\<lambda>m. f m = f e) xs = Some e"
proof (induction xs)
  case Nil then show ?case by simp
next
  case (Cons x xs)
  then show ?case by (cases "x = e") (auto simp: image_iff)
qed

lemma move_by_v_add: "move_by p d = v_add p (vec (or0 (dx d)) (or0 (dy d)) (or0 (dz d)))"
  by (simp add: move_by_def v_add_def vec_def or0_def split: option.splits)

lemma transform_entities_locked:
  "\<forall>m\<in>set ms. ar_id m = modelId \<longrightarrow> locked m \<Longrightarrow> transform_entities modelId d h ms = (h, ms)"
  by (induction ms arbitrary: h) auto

lemma transform_entities_other:
  "\<forall>m\<in>set ms. ar_id m \<noteq> modelId \<Longrightarrow> transform_entities modelId d h ms = (h, ms)"
  by (rule transform_entities_locked) simp

lemma map_other_ids:
  "\<forall>m\<in>set ms. ar_id m \<noteq> modelId \<Longrightarrow> map (\<lambda>m. if ar_id m = modelId then f m else m) ms = ms"
  by (induction ms) auto

lemma transform_entities_unlocked:
  assumes "distinct (map ar_id ms)" "e \<in> set ms" "\<not> locked e"
  shows "transform_entities (ar_id e) d h ms
     = (h(model e := (h (model e))\<lparr>position := move_by (position (h (model e))) d\<rparr>),
        map (\<lambda>m. if ar_id m = ar_id e
                  then m\<lparr>ar_position := move_by (position (h (model e))) d\<rparr> else m) ms)"
  using assms
proof (induction ms arbitrary: h)
  case Nil then show ?case by simp
next
  case (Cons x xs)
  show ?case
  proof (cases "x = e")
    case True
    with Cons.prems have rest: "\<forall>m\<in>set xs. ar_id m \<noteq> ar_id e" by (auto simp: image_iff)
    show ?thesis
      using True Cons.prems(3)
      by (simp add: transform_entities_other [OF rest] map_other_ids [OF rest] Let_def
          fun_upd_def)
  next
    case False
    with Cons.prems have in_xs: "e \<in> set xs" and ne: "ar_id x \<noteq> ar_id e"
      by (auto simp: image_iff)
    from Cons.prems have "distinct (map ar_id xs)" by simp
    from Cons.IH [OF this in_xs Cons.prems(3)] ne show ?thesis by simp
  qed
qed





lemma transformModel_A_locked:
  "find (\<lambda>m. ar_id m = modelId) (arModels s) = Some e \<Longrightarrow> locked e
     \<Longrightarrow> transformModel_A modelId d s = s"
  by (simp add: transformModel_A_def)

lemma transformModel_A_absent:
  "find (\<lambda>m. ar_id m = modelId) (arModels s) = None \<Longrightarrow> transformModel_A modelId d s = s"
  by (simp add: transformModel_A_def)

lemma transformModel_A_unlocked:
  "find (\<lambda>m. ar_id m = modelId) (arModels s) = Some e \<Longrightarrow> \<not> locked e
     \<Longrightarrow> transformModel_A modelId d s
         = s\<lparr>objects := (objects s)(model e := transformed_A (controlMode s) d (objects s (model e)))\<rparr>"
  by (simp add: transformModel_A_def transformed_A_def Let_def split: controlMode_t.splits)

lemma transformModel_B_locked:
  "\<forall>m\<in>set (arModels s). ar_id m = modelId \<longrightarrow> locked m \<Longrightarrow> transformModel_B modelId d s = s"
  by (simp add: transformModel_B_def transform_entities_locked)

lemma transformModel_B_unlocked:
  assumes "distinct (map ar_id (arModels s))" "e \<in> set (arModels s)" "\<not> locked e"
  shows "transformModel_B (ar_id e) d s
     = s\<lparr>objects := (objects s)(model e := (objects s (model e))
              \<lparr>position := v_add (position (objects s (model e)))
                             (vec (or0 (dx d)) (or0 (dy d)) (or0 (dz d)))\<rparr>),
          arModels := map (\<lambda>m. if ar_id m = ar_id e
                                then m\<lparr>ar_position := v_add (position (objects s (model e)))
                                       (vec (or0 (dx d)) (or0 (dy d)) (or0 (dz d)))\<rparr>
                                else m) (arModels s)\<rparr>"
  by (simp add: transformModel_B_def transform_entities_unlocked [OF assms] move_by_v_add)

lemma distinct_locked_all:
  assumes "distinct (map ar_id ms)" "e \<in> set ms" "locked e"
  shows "\<forall>m\<in>set ms. ar_id m = ar_id e \<longrightarrow> locked m"
  using assms by (metis distinct_map inj_on_def)

text \<open>
  Claim C3, as the code has it. For an entity of the placed-model list (ids distinct):
  if it is locked, \<^verbatim>\<open>transformModel\<close> on its id changes nothing, in both variants. If it
  is not locked, variant A adds the delta to the position or to the rotation of the
  entity's scene object, or multiplies its scale, according to the control mode; variant B
  adds the delta to the position whatever the control mode is.
\<close>

theorem transformModel_lock_and_modes:
  assumes "distinct (map ar_id (arModels s))" and "e \<in> set (arModels s)"
  shows "(locked e \<longrightarrow>
            transformModel_A (ar_id e) d s = s \<and> transformModel_B (ar_id e) d s = s)
       \<and> (\<not> locked e \<longrightarrow>
            (controlMode s = Move \<longrightarrow>
               objects (transformModel_A (ar_id e) d s) (model e)
                 = (objects s (model e))\<lparr>position :=
                      v_add (position (objects s (model e))) (delta_vec d)\<rparr>)
          \<and> (controlMode s = Rotate \<longrightarrow>
               objects (transformModel_A (ar_id e) d s) (model e)
                 = (objects s (model e))\<lparr>rotation :=
                      v_add (rotation (objects s (model e))) (delta_vec d)\<rparr>)
          \<and> (controlMode s = Scale \<longrightarrow>
               objects (transformModel_A (ar_id e) d s) (model e)
                 = (objects s (model e))\<lparr>scale :=
                      multiplyScalar (scale (objects s (model e))) (1 + or0 (dx d) * 0.1)\<rparr>)
          \<and> objects (transformModel_B (ar_id e) d s) (model e)
                 = (objects s (model e))\<lparr>position :=
                      v_add (position (objects s (model e))) (delta_vec d)\<rparr>)"
proof -
  have fnd: "find (\<lambda>m. ar_id m = ar_id e) (arModels s) = Some e"
    using assms by (rule find_unique)
  have 1: "locked e \<longrightarrow> transformModel_A (ar_id e) d s = s"
    using fnd by (simp add: transformModel_A_locked)
  have 2: "locked e \<longrightarrow> transformModel_B (ar_id e) d s = s"
    using distinct_locked_all [OF assms] by (simp add: transformModel_B_locked)
  have 3: "\<not> locked e \<longrightarrow> objects (transformModel_A (ar_id e) d s) (model e)
      = transformed_A (controlMode s) d (objects s (model e))"
    using fnd by (simp add: transformModel_A_unlocked)
  have 4: "\<not> locked e \<longrightarrow> objects (transformModel_B (ar_id e) d s) (model e)
      = (objects s (model e))\<lparr>position := v_add (position (objects s (model e))) (delta_vec d)\<rparr>"
    using transformModel_B_unlocked [OF assms] by (simp add: delta_vec_def)
  from 1 2 3 4 show ?thesis
    by (simp add: transformed_A_def delta_vec_def)
qed

lemma example_viewer_facts:
  "distinct (map ar_id (arModels example_viewer))"
  "example_entity \<in> set (arModels example_viewer)"
  "\<not> locked example_entity"
  "ar_id example_entity = ''chair-1''"
  "model example_entity = 0"
  "objects example_viewer 0 = new_object\<lparr>position := vec 0 0 3, isMesh := True\<rparr>"
  by (simp_all add: example_viewer_def example_entity_def initial_def)

theorem transformModel_lock_and_modes_witness:
  "objects (transformModel_B ''chair-1'' \<lparr>dx = Some 1, dy = None, dz = None\<rparr> example_viewer) 0
     = new_object\<lparr>position := vec 1 0 3, isMesh := True\<rparr>"
  using transformModel_lock_and_modes [OF example_viewer_facts(1,2),
      of "\<lparr>dx = Some 1, dy = None, dz = None\<rparr>"]
  by (simp add: example_viewer_facts delta_vec_def v_add_def vec_def or0_def new_object_def)

text \<open>
  Claim C3 as stated fails in variant B: in rotate mode a delta of 1 along x on an unlocked
  entity leaves the rotation at \<open>(0, 0, 0)\<close> and moves the object from \<open>(0, 0, 3)\<close> to
  \<open>(1, 0, 3)\<close>.
\<close>

theorem transformModel_B_ignores_mode_counterexample:
  "\<not> locked example_entity
   \<and> controlMode (example_viewer\<lparr>controlMode := Rotate\<rparr>) = Rotate
   \<and> rotation (objects (transformModel_B ''chair-1'' \<lparr>dx = Some 1, dy = None, dz = None\<rparr>
        (example_viewer\<lparr>controlMode := Rotate\<rparr>)) 0) = vec 0 0 0
   \<and> rotation (objects (example_viewer\<lparr>controlMode := Rotate\<rparr>) 0) = vec 0 0 0
   \<and> position (objects (transformModel_B ''chair-1'' \<lparr>dx = Some 1, dy = None, dz = None\<rparr>
        (example_viewer\<lparr>controlMode := Rotate\<rparr>)) 0) = vec 1 0 3
   \<and> rotation (objects (transformModel_B ''chair-1'' \<lparr>dx = Some 1, dy = None, dz = None\<rparr>
        (example_viewer\<lparr>controlMode := Rotate\<rparr>)) 0)
       \<noteq> v_add (rotation (objects (example_viewer\<lparr>controlMode := Rotate\<rparr>) 0))
           (delta_vec \<lparr>dx = Some 1, dy = None, dz = None\<rparr>)"
  by (simp add: transformModel_B_def example_viewer_def example_entity_def initial_def
      new_object_def move_by_def vec_def Let_def v_add_def delta_vec_def or0_def)

lemma multiplyScalar_twice: "multiplyScalar (multiplyScalar v k) k = multiplyScalar v (k\<^sup>2)"
  by (simp add: multiplyScalar_def power2_eq_square)

lemma compound_not_additive: "k \<noteq> 0 \<Longrightarrow> (1 + k * 0.1)\<^sup>2 \<noteq> 1 + 2 * k * (0.1::real)"
proof -
  assume "k \<noteq> 0"
  have "(1 + k * 0.1)\<^sup>2 - (1 + 2 * k * 0.1) = (k * 0.1)\<^sup>2"
    by (simp add: power2_eq_square algebra_simps)
  moreover have "(k * 0.1)\<^sup>2 \<noteq> 0" using \<open>k \<noteq> 0\<close> by simp
  ultimately show ?thesis by linarith
qed

text \<open>
  Claim C5. In scale mode a delta \<open>k\<close> multiplies the scale of the entity's object by
  \<open>1 + k * 0.1\<close>; two successive deltas \<open>k\<close> multiply it by \<open>(1 + k * 0.1)\<^sup>2\<close>, which
  for \<open>k \<noteq> 0\<close> is not \<open>1 + 2 * k * 0.1\<close>. (Variant A; numbers as reals.)
\<close>

theorem scale_deltas_compound:
  assumes "find (\<lambda>m. ar_id m = modelId) (arModels s) = Some e" and "\<not> locked e"
    and "controlMode s = Scale" and "dx d = Some k"
  shows "scale (objects (transformModel_A modelId d s) (model e))
           = multiplyScalar (scale (objects s (model e))) (1 + k * 0.1)
       \<and> scale (objects (transformModel_A modelId d (transformModel_A modelId d s)) (model e))
           = multiplyScalar (scale (objects s (model e))) ((1 + k * 0.1)\<^sup>2)
       \<and> (k \<noteq> 0 \<longrightarrow> (1 + k * 0.1)\<^sup>2 \<noteq> 1 + 2 * k * 0.1)"
proof -
  let ?s1 = "transformModel_A modelId d s"
  have s1: "?s1 = s\<lparr>objects := (objects s)(model e := transformed_A Scale d (objects s (model e)))\<rparr>"
    using assms by (simp add: transformModel_A_unlocked)
  have f1: "find (\<lambda>m. ar_id m = modelId) (arModels ?s1) = Some e" "controlMode ?s1 = Scale"
    using assms by (simp_all add: s1)
  have s2: "objects (transformModel_A modelId d ?s1) (model e)
      = transformed_A Scale d (objects ?s1 (model e))"
    using f1 assms(2) by (simp add: transformModel_A_unlocked)
  have 1: "scale (objects ?s1 (model e)) = multiplyScalar (scale (objects s (model e))) (1 + k * 0.1)"
    using assms(4) by (simp add: s1 transformed_A_def or0_def)
  have 2: "scale (objects (transformModel_A modelId d ?s1) (model e))
      = multiplyScalar (scale (objects s (model e))) ((1 + k * 0.1)\<^sup>2)"
    unfolding s2 using assms(4) 1
    by (simp add: transformed_A_def or0_def multiplyScalar_twice)
  from 1 2 compound_not_additive show ?thesis by blast
qed

theorem scale_deltas_compound_witness:
  "scale (objects (transformModel_A ''chair-1'' \<lparr>dx = Some 10, dy = None, dz = None\<rparr>
      (transformModel_A ''chair-1'' \<lparr>dx = Some 10, dy = None, dz = None\<rparr>
        (example_viewer\<lparr>controlMode := Scale\<rparr>))) 0) = vec 4 4 4"
proof -
  have f: "find (\<lambda>m. ar_id m = ''chair-1'') (arModels (example_viewer\<lparr>controlMode := Scale\<rparr>))
      = Some example_entity"
    by (simp add: example_viewer_def example_entity_def)
  have m: "controlMode (example_viewer\<lparr>controlMode := Scale\<rparr>) = Scale" by simp
  have d: "dx \<lparr>dx = Some 10, dy = None, dz = None\<rparr> = Some (10::real)" by simp
  show ?thesis
    using scale_deltas_compound [OF f example_viewer_facts(3) m d]
    by (simp add: example_viewer_facts multiplyScalar_def vec_def new_object_def power2_eq_square)
qed








subsection \<open>Spawning\<close>

lemma spawnModel_ignored: "isLoading s \<Longrightarrow> spawnModel_A n s = s \<and> spawnModel_B n s = s"
  by (simp add: spawnModel_A_def spawnModel_B_def)

lemma spawnModel_accepted:
  "sceneRef s \<noteq> None \<Longrightarrow> \<not> isLoading s
     \<Longrightarrow> inFlight (spawnModel_A n s) = inFlight s @ [GLBLoad n] \<and> isLoading (spawnModel_A n s)
       \<and> inFlight (spawnModel_B n s) = inFlight s @ [GLBLoad n] \<and> isLoading (spawnModel_B n s)"
  by (simp add: spawnModel_A_def spawnModel_B_def)

lemma single_load_bound: "single_load s \<Longrightarrow> length (inFlight s) \<le> 1 \<and> (inFlight s \<noteq> [] \<longrightarrow> isLoading s)"
  by (auto simp: single_load_def)

lemma resolved_clears_flag:
  "inFlight s = [GLBLoad n] \<Longrightarrow> \<not> isLoading (glbSettled_A 0 (Inl err) r1 r2 s)"
  "inFlight s = [MindFetch n a] \<Longrightarrow> \<not> isLoading (mindSettled_A 0 out now s)"
  "inFlight s = [GLBLoad n] \<Longrightarrow> \<not> isLoading (glbSettled_B 0 r now s)"
  by (simp_all add: glbSettled_A_def mindSettled_A_def glbSettled_B_def Let_def finish_def notify_def
      split: option.splits sum.splits)

text \<open>
  Claim C4. While the loading flag is set a \<^verbatim>\<open>spawnModel\<close> request for any name changes
  nothing. From a state with no load in flight, whatever events follow, at most one load is
  ever in flight, and the flag is set while one is. The flag is cleared when the load has
  resolved (failure of the fetch; in variant A the end of the sidecar fetch, in variant B
  either outcome of the load), and a request made then starts a load.
\<close>

theorem spawnModel_at_most_one_load:
  "(isLoading s \<longrightarrow> spawnModel_A modelName s = s \<and> spawnModel_B modelName s = s)
   \<and> (inFlight s0 = [] \<longrightarrow>
        length (inFlight (run_A evs s0)) \<le> 1
      \<and> (inFlight (run_A evs s0) \<noteq> [] \<longrightarrow> isLoading (run_A evs s0))
      \<and> length (inFlight (run_B evs s0)) \<le> 1
      \<and> (inFlight (run_B evs s0) \<noteq> [] \<longrightarrow> isLoading (run_B evs s0)))
   \<and> (inFlight s = [GLBLoad n] \<longrightarrow>
        \<not> isLoading (glbSettled_A 0 (Inl err) r1 r2 s) \<and> \<not> isLoading (glbSettled_B 0 r now s))
   \<and> (inFlight s = [MindFetch n a] \<longrightarrow> \<not> isLoading (mindSettled_A 0 out now s))
   \<and> (sceneRef s \<noteq> None \<and> \<not> isLoading s \<longrightarrow>
        inFlight (spawnModel_A modelName s) = inFlight s @ [GLBLoad modelName]
      \<and> inFlight (spawnModel_B modelName s) = inFlight s @ [GLBLoad modelName])"
proof -
  have 1: "isLoading s \<longrightarrow> spawnModel_A modelName s = s \<and> spawnModel_B modelName s = s"
    using spawnModel_ignored by blast
  have 2: "inFlight s0 = [] \<longrightarrow>
        length (inFlight (run_A evs s0)) \<le> 1
      \<and> (inFlight (run_A evs s0) \<noteq> [] \<longrightarrow> isLoading (run_A evs s0))"
    using single_load_bound [OF single_load_run_A [OF single_load_idle]] by blast
  have 3: "inFlight s0 = [] \<longrightarrow>
        length (inFlight (run_B evs s0)) \<le> 1
      \<and> (inFlight (run_B evs s0) \<noteq> [] \<longrightarrow> isLoading (run_B evs s0))"
    using single_load_bound [OF single_load_run_B [OF single_load_idle]] by blast
  have 4: "inFlight s = [GLBLoad n] \<longrightarrow>
        \<not> isLoading (glbSettled_A 0 (Inl err) r1 r2 s) \<and> \<not> isLoading (glbSettled_B 0 r now s)"
    using resolved_clears_flag(1,3) by blast
  have 5: "inFlight s = [MindFetch n a] \<longrightarrow> \<not> isLoading (mindSettled_A 0 out now s)"
    using resolved_clears_flag(2) by blast
  have 6: "sceneRef s \<noteq> None \<and> \<not> isLoading s \<longrightarrow>
        inFlight (spawnModel_A modelName s) = inFlight s @ [GLBLoad modelName]
      \<and> inFlight (spawnModel_B modelName s) = inFlight s @ [GLBLoad modelName]"
    using spawnModel_accepted by blast
  from 1 2 3 4 5 6 show ?thesis by blast
qed

lemma run_A_example:
  "run_A [InitScene, SpawnModel ''chair''] initial
     = initial\<lparr>objects := (\<lambda>_. new_object)(Suc 0 := new_object\<lparr>position := vec 10 10 5\<rparr>),
         nextObject := 2, sceneRef := Some [0, Suc 0], cameraRef := Some new_camera,
         isLoading := True, activeModel := Some ''chair'', inFlight := [GLBLoad ''chair''],
         toasts := [mk_toast ''Loading Model'' ''Loading chair...'' (Some Default)]\<rparr>"
  by (simp add: run_A_def initScene_A_def spawnModel_A_def initial_def notify_def Let_def fun_upd_def)

theorem spawnModel_at_most_one_load_witness:
  "isLoading (run_A [InitScene, SpawnModel ''chair''] initial)
   \<and> spawnModel_A ''sofa'' (run_A [InitScene, SpawnModel ''chair''] initial)
       = run_A [InitScene, SpawnModel ''chair''] initial
   \<and> inFlight initial = []
   \<and> length (inFlight (run_A [InitScene, SpawnModel ''chair'', SpawnModel ''sofa''] initial)) \<le> 1"
proof -
  have l: "isLoading (run_A [InitScene, SpawnModel ''chair''] initial)"
    by (simp add: run_A_example)
  have i: "inFlight initial = []" by (simp add: initial_def)
  note once = spawnModel_at_most_one_load [of "run_A [InitScene, SpawnModel ''chair''] initial"
      "''sofa''" initial "[InitScene, SpawnModel ''chair'', SpawnModel ''sofa'']"]
  from once l have 1: "spawnModel_A ''sofa'' (run_A [InitScene, SpawnModel ''chair''] initial)
       = run_A [InitScene, SpawnModel ''chair''] initial" by blast
  from once i have 2:
    "length (inFlight (run_A [InitScene, SpawnModel ''chair'', SpawnModel ''sofa''] initial)) \<le> 1"
    by blast
  from l 1 i 2 show ?thesis by blast
qed

text \<open>
  Claim C6. When the fetch or the decoding of the asset fails, the user is shown a
  destructive notification; the placed-model list, the scene graph and the scene objects
  are as before; and the loading flag is cleared, so that a later request starts a load.
\<close>

theorem spawnModel_failure_no_partial_insert:
  assumes "i < length (inFlight s)" and "inFlight s ! i = GLBLoad modelName"
  shows "arModels (glbSettled_A i (Inl err) r1 r2 s) = arModels s
       \<and> sceneRef (glbSettled_A i (Inl err) r1 r2 s) = sceneRef s
       \<and> objects (glbSettled_A i (Inl err) r1 r2 s) = objects s
       \<and> toasts (glbSettled_A i (Inl err) r1 r2 s)
           = toasts s @ [mk_toast ''Error Loading Model''
               (''Failed to load '' @ modelName @ ''. Failed to load model: '') (Some Destructive)]
       \<and> \<not> isLoading (glbSettled_A i (Inl err) r1 r2 s)
       \<and> activeModel (glbSettled_A i (Inl err) r1 r2 s) = None
       \<and> arModels (glbSettled_B i (Inl err) now s) = arModels s
       \<and> sceneRef (glbSettled_B i (Inl err) now s) = sceneRef s
       \<and> objects (glbSettled_B i (Inl err) now s) = objects s
       \<and> toasts (glbSettled_B i (Inl err) now s)
           = toasts s @ [mk_toast ''Error''
               (''Failed to load '' @ modelName @ ''. Please try again.'') (Some Destructive)]
       \<and> \<not> isLoading (glbSettled_B i (Inl err) now s)
       \<and> activeModel (glbSettled_B i (Inl err) now s) = None
       \<and> (sceneRef s \<noteq> None \<longrightarrow>
            last (inFlight (spawnModel_A next (glbSettled_A i (Inl err) r1 r2 s))) = GLBLoad next
          \<and> last (inFlight (spawnModel_B next (glbSettled_B i (Inl err) now s))) = GLBLoad next)"
proof -
  have A: "glbSettled_A i (Inl err) r1 r2 s
      = s\<lparr>inFlight := remove_nth i (inFlight s),
          toasts := toasts s @ [mk_toast ''Error Loading Model''
               (''Failed to load '' @ modelName @ ''. Failed to load model: '') (Some Destructive)],
          isLoading := False, activeModel := None\<rparr>"
    using assms by (simp add: glbSettled_A_def Let_def finish_def notify_def)
  have B: "glbSettled_B i (Inl err) now s
      = s\<lparr>inFlight := remove_nth i (inFlight s),
          toasts := toasts s @ [mk_toast ''Error''
               (''Failed to load '' @ modelName @ ''. Please try again.'') (Some Destructive)],
          isLoading := False, activeModel := None\<rparr>"
    using assms by (simp add: glbSettled_B_def Let_def finish_def notify_def)
  show ?thesis unfolding A B by (simp add: spawnModel_A_def spawnModel_B_def)
qed

theorem spawnModel_failure_no_partial_insert_witness:
  "arModels (glbSettled_A 0 (Inl DecodeFailed) 0 0 example_loading) = []
   \<and> sceneRef (glbSettled_A 0 (Inl DecodeFailed) 0 0 example_loading) = Some []
   \<and> toasts (glbSettled_A 0 (Inl DecodeFailed) 0 0 example_loading)
       = [mk_toast ''Error Loading Model'' ''Failed to load lamp. Failed to load model: ''
            (Some Destructive)]
   \<and> isLoading example_loading
   \<and> \<not> isLoading (glbSettled_A 0 (Inl DecodeFailed) 0 0 example_loading)
   \<and> toasts (glbSettled_B 0 (Inl FetchFailed) 0 example_loading)
       = [mk_toast ''Error'' ''Failed to load lamp. Please try again.'' (Some Destructive)]"
proof -
  have h: "0 < length (inFlight example_loading)" "inFlight example_loading ! 0 = GLBLoad ''lamp''"
    by (simp_all add: example_loading_def)
  have f: "arModels example_loading = []" "sceneRef example_loading = Some []"
    "toasts example_loading = []" "isLoading example_loading"
    by (simp_all add: example_loading_def initial_def)
  show ?thesis
    using spawnModel_failure_no_partial_insert [OF h, of DecodeFailed 0 0 0 "''sofa''"]
      spawnModel_failure_no_partial_insert [OF h, of FetchFailed 0 0 0 "''sofa''"]
    by (simp add: f)
qed

text \<open>
  The sidecar file is optional: when its fetch fails in variant A nothing is reported and
  the model is placed all the same.
\<close>

lemma mindSettled_A_swallows_failure:
  assumes "i < length (inFlight s)" and "inFlight s ! i = MindFetch modelName a"
    and "sceneRef s = Some children" and "outcome \<noteq> MindJson"
  shows "arModels (mindSettled_A i outcome now s)
           = arModels s @ [newModel modelName now a (objects s a)]"
    and "sceneRef (mindSettled_A i outcome now s) = Some (children @ [a])"
    and "toasts (mindSettled_A i outcome now s)
           = toasts s @ [mk_toast ''Model Loaded''
               (modelName @ '' has been placed in the scene.'') (Some Default)]"
    and "\<not> isLoading (mindSettled_A i outcome now s)"
  using assms by (simp_all add: mindSettled_A_def Let_def finish_def notify_def)





lemma refs_notify [simp]:
  "sceneRef (notify t s) = sceneRef s" "cameraRef (notify t s) = cameraRef s"
  by (simp_all add: notify_def)

lemma refs_finish [simp]:
  "sceneRef (finish s) = sceneRef s" "cameraRef (finish s) = cameraRef s"
  by (simp_all add: finish_def)






















text \<open>
  The other branch of variant A, which draws two random numbers, is taken in no state the
  component reaches.
\<close>

lemma place_A_without_camera:
  "place_A None r1 r2 = vec ((r1 - 0.5) * 2) 0 ((r2 - 0.5) * 2 - 2)"
  by (simp add: place_A_def)


lemma palette_facts:
  "P = chair_palette \<or> P = sofa_palette \<or> P = table_palette \<or> P = default_palette
     \<Longrightarrow> P \<noteq> [] \<and> (\<forall>m\<in>set P. color m \<noteq> None) \<and> first_material_id P = Some (m_id (hd P))"
  by (auto simp: chair_palette_def sofa_palette_def table_palette_def default_palette_def
      first_material_id_def)

lemma getModelMaterials_palette:
  "getModelMaterials n = chair_palette \<or> getModelMaterials n = sofa_palette
     \<or> getModelMaterials n = table_palette \<or> getModelMaterials n = default_palette"
  by (simp add: getModelMaterials_cases)

lemma getModelMaterials_facts:
  "getModelMaterials n \<noteq> []"
  "\<forall>m\<in>set (getModelMaterials n). color m \<noteq> None"
  "first_material_id (getModelMaterials n) = Some (m_id (hd (getModelMaterials n)))"
  using palette_facts [OF getModelMaterials_palette [of n]] by blast+

lemma newModel_fields:
  "selectedMaterial (newModel n now a g) = Some (m_id (hd (getModelMaterials n)))"
  "materials (newModel n now a g) = getModelMaterials n"
  "model (newModel n now a g) = a" "\<not> locked (newModel n now a g)"
  "ar_position (newModel n now a g) = position g"
  by (simp_all add: newModel_def Let_def getModelMaterials_facts)

lemma mindSettled_A_success:
  assumes "i < length (inFlight s)" and "inFlight s ! i = MindFetch modelName a"
    and "sceneRef s = Some children"
  shows "arModels (mindSettled_A i out now s) = arModels s @ [newModel modelName now a (objects s a)]"
    and "sceneRef (mindSettled_A i out now s) = Some (children @ [a])"
  using assms by (simp_all add: mindSettled_A_def Let_def finish_def notify_def)

lemma glbSettled_B_success:
  assumes "i < length (inFlight s)" and "inFlight s ! i = GLBLoad modelName"
    and "sceneRef s = Some children"
  shows "arModels (glbSettled_B i (Inr gltf) now s)
      = arModels s @ [newModel modelName now (nextObject s)
          (gltf\<lparr>position := place_B (cameraRef s),
            scale := vec (1.5 / boundingSize gltf) (1.5 / boundingSize gltf) (1.5 / boundingSize gltf)\<rparr>)]"
    and "sceneRef (glbSettled_B i (Inr gltf) now s) = Some (children @ [nextObject s])"
  using assms by (simp_all add: glbSettled_B_def Let_def finish_def notify_def)

text \<open>
  Claim C10. For every model name \<^const>\<open>getModelMaterials\<close> returns a non-empty list whose
  descriptors all have a colour; so the entity that a successful \<^verbatim>\<open>spawnModel\<close> appends
  (in variant A when the sidecar fetch has settled, in variant B when the asset has
  loaded) has the id of the first material of its catalog as \<open>selectedMaterial\<close>.
\<close>

theorem spawned_entity_has_material:
  "getModelMaterials modelName \<noteq> []
   \<and> (\<forall>m\<in>set (getModelMaterials modelName). color m \<noteq> None)
   \<and> (i < length (inFlight s) \<and> inFlight s ! i = MindFetch modelName a \<and> sceneRef s \<noteq> None \<longrightarrow>
        (\<exists>entity. arModels (mindSettled_A i out now s) = arModels s @ [entity]
           \<and> selectedMaterial entity = Some (m_id (hd (getModelMaterials modelName)))
           \<and> materials entity = getModelMaterials modelName))
   \<and> (i < length (inFlight s) \<and> inFlight s ! i = GLBLoad modelName \<and> sceneRef s \<noteq> None \<longrightarrow>
        (\<exists>entity. arModels (glbSettled_B i (Inr gltf) now s) = arModels s @ [entity]
           \<and> selectedMaterial entity = Some (m_id (hd (getModelMaterials modelName)))
           \<and> materials entity = getModelMaterials modelName))"
proof -
  have A: "i < length (inFlight s) \<and> inFlight s ! i = MindFetch modelName a \<and> sceneRef s \<noteq> None \<longrightarrow>
        (\<exists>entity. arModels (mindSettled_A i out now s) = arModels s @ [entity]
           \<and> selectedMaterial entity = Some (m_id (hd (getModelMaterials modelName)))
           \<and> materials entity = getModelMaterials modelName)"
    using mindSettled_A_success(1) newModel_fields(1,2) by blast
  have B: "i < length (inFlight s) \<and> inFlight s ! i = GLBLoad modelName \<and> sceneRef s \<noteq> None \<longrightarrow>
        (\<exists>entity. arModels (glbSettled_B i (Inr gltf) now s) = arModels s @ [entity]
           \<and> selectedMaterial entity = Some (m_id (hd (getModelMaterials modelName)))
           \<and> materials entity = getModelMaterials modelName)"
    using glbSettled_B_success(1) newModel_fields(1,2) by blast
  from getModelMaterials_facts(1,2) A B show ?thesis by blast
qed

lemma show_nat_example: "show_nat 1700000000000 = ''1700000000000''"
  by simp

theorem spawned_entity_has_material_witness:
  "\<exists>entity. arModels (glbSettled_B 0 (Inr example_asset) 1700000000000 example_loading) = [entity]
     \<and> selectedMaterial entity = Some ''default-red''"
proof -
  have h: "0 < length (inFlight example_loading) \<and> inFlight example_loading ! 0 = GLBLoad ''lamp''
      \<and> sceneRef example_loading \<noteq> None"
    by (simp add: example_loading_def)
  have e: "arModels example_loading = []" by (simp add: example_loading_def initial_def)
  have m: "m_id (hd (getModelMaterials ''lamp'')) = ''default-red''"
    by (simp add: getModelMaterials_cases toLowerCase_examples default_palette_def
        str_includes_iff_sublist [symmetric])
  from spawned_entity_has_material [where modelName = "''lamp''" and i = 0
      and s = example_loading and gltf = example_asset and now = 1700000000000]
    h show ?thesis unfolding e m by simp blast
qed

end
